theory Spec2Isabelle
  imports Complex_Main
begin

section \<open>Data model\<close>

text \<open>
  The types of \<^verbatim>\<open>src/types\<close> as the services use them. Record fields share one name
  space, so a field name that two records have (or that HOL already uses, as \<open>id\<close>)
  carries a short prefix; every other field keeps the name of the source. A string
  column that may be \<^verbatim>\<open>NULL\<close> or a property that may be \<^verbatim>\<open>undefined\<close> is an \<open>option\<close>.
\<close>

datatype sync_state = StPending | StSynced | StError

datatype operation = Create | Update | Delete

text \<open>
  A \<^verbatim>\<open>Task\<close>, with the type of its three date properties as a parameter. In a row of the
  table and in the objects that \<^verbatim>\<open>mapRowToTask\<close> builds with \<^verbatim>\<open>new Date\<close>, a date is its
  time value in milliseconds (\<open>task\<close>). An object that comes out of \<^verbatim>\<open>JSON.parse\<close>, as
  the body of an axios response does, is typed \<^verbatim>\<open>Task\<close> too, but nothing revives its
  dates: where the sender had a \<^verbatim>\<open>Date\<close> it holds the ISO text of that date, a string
  (\<open>json_task\<close>). \<open>IsoString t\<close> is the text \<^verbatim>\<open>new Date(t).toISOString()\<close>.
\<close>

datatype js_date = DateObject int | IsoString int

record 'd task_of =
  t_id :: string
  title :: string
  description :: string
  completed :: bool
  t_created_at :: 'd
  updated_at :: 'd
  is_deleted :: bool
  sync_status :: sync_state
  server_id :: "string option"
  last_synced_at :: "'d option"

type_synonym task = "int task_of"

type_synonym json_task = "js_date task_of"

text \<open>
  \<^verbatim>\<open>Partial<Task>\<close>: every property may be absent (\<open>None\<close>). The two optional properties
  of a task can also be present with the value \<^verbatim>\<open>undefined\<close> (\<open>Some None\<close>), which an
  object spread copies.
\<close>

record partial_task =
  p_id :: "string option"
  p_title :: "string option"
  p_description :: "string option"
  p_completed :: "bool option"
  p_created_at :: "js_date option"
  p_updated_at :: "js_date option"
  p_is_deleted :: "bool option"
  p_sync_status :: "sync_state option"
  p_server_id :: "string option option"
  p_last_synced_at :: "js_date option option"

record sync_queue_item =
  q_id :: string
  task_id :: string
  operation :: operation
  data :: partial_task
  q_created_at :: int
  retry_count :: nat
  error_message :: "string option"

datatype outcome = Success | Conflict | Failure

text \<open>
  One element of \<^verbatim>\<open>processed_items\<close>; \<open>Failure\<close> is the status \<^verbatim>\<open>'error'\<close>. The resolved
  data are part of the parsed response.
\<close>

record processed_item =
  client_id :: string
  status :: outcome
  resolved_data :: "json_task option"
  r_error :: "string option"

record batch_sync_request =
  items :: "sync_queue_item list"
  client_timestamp :: int

record batch_sync_response =
  processed_items :: "processed_item list"
  server_timestamp :: int

record sync_error =
  e_task_id :: string
  e_operation :: string
  e_error :: string
  e_timestamp :: int

record sync_result =
  success :: bool
  synced_items :: nat
  failed_items :: nat
  errors :: "sync_error list"

section \<open>The database and the environment\<close>

text \<open>
  Every \<^verbatim>\<open>db.run\<close> of the two services is one of six statements. \<open>exec\<close> gives each its
  effect on the two tables (a table is the list of its rows) and records the statement
  in a journal, so that a theorem can count the writes a call has issued. The statements
  are assumed to succeed: a rejected promise of the database is not modelled.
\<close>

datatype sql_write =
    InsertQueue sync_queue_item
  | UpdateTask string string bool int bool sync_state string
  | UpdateTaskSync sync_state "string option" int string
  | DeleteQueueForTask string
  | BumpRetry string string
  | DeleteQueueItem string

record world =
  tasks :: "task list"
  sync_queue :: "sync_queue_item list"
  journal :: "sql_write list"
  ticks :: nat
  uuids :: nat

text \<open>
  What the service cannot decide: whether \<^verbatim>\<open>GET /health\<close> answers, what
  \<^verbatim>\<open>POST /sync/batch\<close> answers to a request (\<open>Inl\<close> the message of the error that
  axios throws), the successive readings of the clock and the successive UUIDs.
\<close>

record env =
  health :: bool
  remote :: "batch_sync_request \<Rightarrow> string + batch_sync_response"
  clock :: "nat \<Rightarrow> int"
  uuid :: "nat \<Rightarrow> string"

definition new_Date :: "env \<Rightarrow> world \<Rightarrow> int \<times> world" where
  "new_Date e w = (clock e (ticks w), w\<lparr>ticks := ticks w + 1\<rparr>)"

definition uuidv4 :: "env \<Rightarrow> world \<Rightarrow> string \<times> world" where
  "uuidv4 e w = (uuid e (uuids w), w\<lparr>uuids := uuids w + 1\<rparr>)"

fun apply_write :: "sql_write \<Rightarrow> world \<Rightarrow> world" where
  "apply_write (InsertQueue item) w = w\<lparr>sync_queue := sync_queue w @ [item]\<rparr>"
| "apply_write (UpdateTask ti de co up del st i) w =
     w\<lparr>tasks := map (\<lambda>t. if t_id t = i
                           then t\<lparr>title := ti, description := de, completed := co,
                                  updated_at := up, is_deleted := del, sync_status := st\<rparr>
                           else t) (tasks w)\<rparr>"
| "apply_write (UpdateTaskSync st sid now i) w =
     w\<lparr>tasks := map (\<lambda>t. if t_id t = i
                           then t\<lparr>sync_status := st,
                                  server_id := (case sid of None \<Rightarrow> server_id t | Some s \<Rightarrow> Some s),
                                  last_synced_at := Some now\<rparr>
                           else t) (tasks w)\<rparr>"
| "apply_write (DeleteQueueForTask i) w =
     w\<lparr>sync_queue := filter (\<lambda>q. task_id q \<noteq> i) (sync_queue w)\<rparr>"
| "apply_write (BumpRetry msg i) w =
     w\<lparr>sync_queue := map (\<lambda>q. if q_id q = i
                                then q\<lparr>retry_count := retry_count q + 1, error_message := Some msg\<rparr>
                                else q) (sync_queue w)\<rparr>"
| "apply_write (DeleteQueueItem i) w =
     w\<lparr>sync_queue := filter (\<lambda>q. q_id q \<noteq> i) (sync_queue w)\<rparr>"

definition exec :: "sql_write \<Rightarrow> world \<Rightarrow> world" where
  "exec s w = (apply_write s w)\<lparr>journal := journal w @ [s]\<rparr>"

text \<open>JavaScript's \<^verbatim>\<open>s || d\<close> on an optional string: the empty string is falsy too.\<close>

fun or_else :: "string option \<Rightarrow> string \<Rightarrow> string" where
  "or_else None d = d"
| "or_else (Some s) d = (if s = [] then d else s)"

fun or_null :: "string option \<Rightarrow> string option" where
  "or_null None = None"
| "or_null (Some s) = (if s = [] then None else Some s)"

section \<open>TaskService\<close>

definition mapRowToTask :: "task \<Rightarrow> task" where
  "mapRowToTask row = row\<lparr>server_id := or_null (server_id row)\<rparr>"

definition getTask :: "string \<Rightarrow> world \<Rightarrow> task option" where
  "getTask i w =
     (case find (\<lambda>t. t_id t = i) (tasks w) of
        None \<Rightarrow> None
      | Some row \<Rightarrow> if is_deleted row then None else Some (mapRowToTask row))"

text \<open>An object of \<open>mapRowToTask\<close> seen as a run-time \<^verbatim>\<open>Task\<close>: its dates are \<^verbatim>\<open>Date\<close> objects.\<close>

definition date_objects :: "task \<Rightarrow> json_task" where
  "date_objects t =
     \<lparr>t_id = t_id t, title = title t, description = description t, completed = completed t,
      t_created_at = DateObject (t_created_at t), updated_at = DateObject (updated_at t),
      is_deleted = is_deleted t, sync_status = sync_status t, server_id = server_id t,
      last_synced_at = map_option DateObject (last_synced_at t)\<rparr>"

text \<open>
  A \<^verbatim>\<open>Task\<close> passed where \<^verbatim>\<open>Partial<Task>\<close> is expected, with every property present (as
  the objects that \<open>mapRowToTask\<close> builds are). In an object parsed from JSON an optional
  property without a value is absent instead; the difference shows only in the object
  that \<open>updateTask\<close> returns: the statements it issues read the mandatory properties only,
  and the queued payload drops a property that is \<^verbatim>\<open>undefined\<close>.
\<close>

definition as_partial :: "json_task \<Rightarrow> partial_task" where
  "as_partial t =
     \<lparr>p_id = Some (t_id t), p_title = Some (title t), p_description = Some (description t),
      p_completed = Some (completed t), p_created_at = Some (t_created_at t),
      p_updated_at = Some (updated_at t), p_is_deleted = Some (is_deleted t),
      p_sync_status = Some (sync_status t), p_server_id = Some (server_id t),
      p_last_synced_at = Some (last_synced_at t)\<rparr>"

text \<open>The object spread \<^verbatim>\<open>{...existing, ...updates}\<close>.\<close>

definition spread :: "task \<Rightarrow> partial_task \<Rightarrow> json_task" where
  "spread existing updates =
     \<lparr>t_id = (case p_id updates of None \<Rightarrow> t_id existing | Some v \<Rightarrow> v),
      title = (case p_title updates of None \<Rightarrow> title existing | Some v \<Rightarrow> v),
      description = (case p_description updates of None \<Rightarrow> description existing | Some v \<Rightarrow> v),
      completed = (case p_completed updates of None \<Rightarrow> completed existing | Some v \<Rightarrow> v),
      t_created_at =
        (case p_created_at updates of None \<Rightarrow> DateObject (t_created_at existing) | Some v \<Rightarrow> v),
      updated_at =
        (case p_updated_at updates of None \<Rightarrow> DateObject (updated_at existing) | Some v \<Rightarrow> v),
      is_deleted = (case p_is_deleted updates of None \<Rightarrow> is_deleted existing | Some v \<Rightarrow> v),
      sync_status = (case p_sync_status updates of None \<Rightarrow> sync_status existing | Some v \<Rightarrow> v),
      server_id = (case p_server_id updates of None \<Rightarrow> server_id existing | Some v \<Rightarrow> v),
      last_synced_at =
        (case p_last_synced_at updates of
           None \<Rightarrow> map_option DateObject (last_synced_at existing)
         | Some v \<Rightarrow> v)\<rparr>"

text \<open>
  What \<^verbatim>\<open>JSON.stringify\<close> keeps of a payload, as \<^verbatim>\<open>JSON.parse\<close> gives it back: a \<^verbatim>\<open>Date\<close>
  has become its ISO text, and a property whose value is \<^verbatim>\<open>undefined\<close> is gone.
\<close>

fun iso_text :: "js_date \<Rightarrow> js_date" where
  "iso_text (DateObject t) = IsoString t"
| "iso_text (IsoString t) = IsoString t"

definition json_payload :: "partial_task \<Rightarrow> partial_task" where
  "json_payload d =
     d\<lparr>p_created_at := map_option iso_text (p_created_at d),
       p_updated_at := map_option iso_text (p_updated_at d),
       p_server_id := (case p_server_id d of Some None \<Rightarrow> None | v \<Rightarrow> v),
       p_last_synced_at :=
         (case p_last_synced_at d of
            None \<Rightarrow> None
          | Some None \<Rightarrow> None
          | Some (Some v) \<Rightarrow> Some (Some (iso_text v)))\<rparr>"

text \<open>
  \<^verbatim>\<open>SyncService.addToSyncQueue\<close>: a new row with a fresh identifier, the current time and
  retry count 0; the column \<^verbatim>\<open>error_message\<close> is not listed and stays \<^verbatim>\<open>NULL\<close>.
\<close>

definition addToSyncQueue ::
  "env \<Rightarrow> string \<Rightarrow> operation \<Rightarrow> partial_task \<Rightarrow> world \<Rightarrow> world" where
  "addToSyncQueue e taskId op d w =
     (let (i, w1) = uuidv4 e w;
          (now, w2) = new_Date e w1;
          item = \<lparr>q_id = i, task_id = taskId, operation = op, data = json_payload d,
                  q_created_at = now,
                  retry_count = 0, error_message = None\<rparr>
      in exec (InsertQueue item) w2)"

definition updateTask ::
  "env \<Rightarrow> string \<Rightarrow> partial_task \<Rightarrow> world \<Rightarrow> json_task option \<times> world" where
  "updateTask e i updates w =
     (case getTask i w of
        None \<Rightarrow> (None, w)
      | Some existing \<Rightarrow>
          (let (now, w1) = new_Date e w;
               updatedTask = (spread existing updates)\<lparr>updated_at := DateObject now,
                                                         sync_status := StPending\<rparr>;
               w2 = exec (UpdateTask (title updatedTask) (description updatedTask)
                            (completed updatedTask) now
                            (is_deleted updatedTask) (sync_status updatedTask) i) w1;
               w3 = addToSyncQueue e (t_id updatedTask) Update updates w2
           in (Some updatedTask, w3)))"

section \<open>SyncService\<close>

text \<open>
  The value of \<^verbatim>\<open>parseInt\<close>, and of the loop index computed from it: an integer or
  \<^verbatim>\<open>NaN\<close>. A comparison with \<^verbatim>\<open>NaN\<close> is false, a sum with \<^verbatim>\<open>NaN\<close> is \<^verbatim>\<open>NaN\<close>, and
  \<^verbatim>\<open>slice\<close> reads \<^verbatim>\<open>NaN\<close> as 0.
\<close>

datatype number = NaN | Num int

fun js_add :: "number \<Rightarrow> number \<Rightarrow> number" where
  "js_add (Num a) (Num b) = Num (a + b)"
| "js_add _ _ = NaN"

fun js_lt :: "number \<Rightarrow> number \<Rightarrow> bool" where
  "js_lt (Num a) (Num b) = (a < b)"
| "js_lt _ _ = False"

fun to_integer :: "number \<Rightarrow> int" where
  "to_integer NaN = 0"
| "to_integer (Num a) = a"

text \<open>
  \<^verbatim>\<open>Array.prototype.slice(start, end)\<close>: a negative bound counts from the end of the
  array, and both bounds are clamped to the array.
\<close>

definition clamp_index :: "int \<Rightarrow> int \<Rightarrow> int" where
  "clamp_index len r = (if r < 0 then max (len + r) 0 else min r len)"

definition js_slice :: "'a list \<Rightarrow> number \<Rightarrow> number \<Rightarrow> 'a list" where
  "js_slice xs start stop =
     (let len = int (length xs);
          k = clamp_index len (to_integer start);
          final = clamp_index len (to_integer stop)
      in take (nat (max (final - k) 0)) (drop (nat k) xs))"

text \<open>
  The loop \<^verbatim>\<open>for (let i = 0; i < queueItems.length; i += this.batchSize)\<close> of \<^verbatim>\<open>sync\<close>.
  It need not end, so its value is an option: \<open>None\<close> when it runs forever.
\<close>

partial_function (option) batch_loop ::
  "number \<Rightarrow> 'a list \<Rightarrow> number \<Rightarrow> 'a list list \<Rightarrow> 'a list list option" where
  "batch_loop batchSize queueItems i batches =
     (if js_lt i (Num (int (length queueItems)))
      then batch_loop batchSize queueItems (js_add i batchSize)
             (batches @ [js_slice queueItems i (js_add i batchSize)])
      else Some batches)"

definition checkConnectivity :: "env \<Rightarrow> bool" where
  "checkConnectivity e = health e"

text \<open>\<^verbatim>\<open>processBatch\<close>: \<open>Inl\<close> is the message of the error that the call throws.\<close>

definition processBatch ::
  "env \<Rightarrow> sync_queue_item list \<Rightarrow> world \<Rightarrow> (string + batch_sync_response) \<times> world" where
  "processBatch e its w =
     (let (now, w1) = new_Date e w;
          request = \<lparr>items = its, client_timestamp = now\<rparr>
      in (remote e request, w1))"

text \<open>
  \<^verbatim>\<open>resolveConflict\<close>. Its caller passes the object of \<open>getTask\<close> and the resolved data of
  the response. \<^verbatim>\<open>a > b\<close> on a \<^verbatim>\<open>Date\<close> and a string compares numbers: the time value of
  the \<^verbatim>\<open>Date\<close>, and the number that the string denotes, which for the ISO text of a date
  is \<^verbatim>\<open>NaN\<close>.
\<close>

fun date_number :: "js_date \<Rightarrow> number" where
  "date_number (DateObject t) = Num t"
| "date_number (IsoString t) = NaN"

definition resolveConflict :: "task \<Rightarrow> json_task \<Rightarrow> json_task" where
  "resolveConflict localTask serverTask =
     (if js_lt (date_number (updated_at serverTask)) (Num (updated_at localTask))
      then date_objects localTask else serverTask)"

definition updateSyncStatus ::
  "env \<Rightarrow> string \<Rightarrow> sync_state \<Rightarrow> json_task option \<Rightarrow> world \<Rightarrow> world" where
  "updateSyncStatus e taskId st serverData w =
     (let (now, w1) = new_Date e w;
          sid = (case serverData of None \<Rightarrow> None | Some d \<Rightarrow> or_null (server_id d));
          w2 = exec (UpdateTaskSync st sid now taskId) w1
      in if st = StSynced then exec (DeleteQueueForTask taskId) w2 else w2)"

definition handleSyncError :: "sync_queue_item \<Rightarrow> string \<Rightarrow> world \<Rightarrow> world" where
  "handleSyncError item msg w =
     (let w1 = exec (BumpRetry msg (q_id item)) w
      in case find (\<lambda>q. q_id q = q_id item) (sync_queue w1) of
           None \<Rightarrow> w1
         | Some updated \<Rightarrow>
             if retry_count updated > 3 then exec (DeleteQueueItem (q_id item)) w1 else w1)"

text \<open>
  The state of one cycle: the database and the three accumulators \<^verbatim>\<open>totalSynced\<close>,
  \<^verbatim>\<open>totalFailed\<close> and \<^verbatim>\<open>errors\<close> of \<^verbatim>\<open>sync\<close>.
\<close>

record progress =
  db :: world
  totalSynced :: nat
  totalFailed :: nat
  errorList :: "sync_error list"

text \<open>
  The body of \<^verbatim>\<open>for (const result of response.processed_items)\<close>. As in the source,
  \<^verbatim>\<open>result.client_id\<close> is read as the identifier of a task in the first two branches and
  as the identifier of a queue entry in the third.
\<close>

definition process_item :: "env \<Rightarrow> sync_queue_item list \<Rightarrow> progress \<Rightarrow> processed_item \<Rightarrow> progress" where
  "process_item e batch p result =
     (if status result = Success then
        p\<lparr>db := updateSyncStatus e (client_id result) StSynced (resolved_data result) (db p),
          totalSynced := totalSynced p + 1\<rparr>
      else if status result = Conflict \<and> resolved_data result \<noteq> None then
        (let w1 = (case getTask (client_id result) (db p) of
                     None \<Rightarrow> db p
                   | Some localTask \<Rightarrow>
                       (case resolved_data result of
                          None \<Rightarrow> db p
                        | Some serverTask \<Rightarrow>
                            snd (updateTask e (t_id localTask)
                                   (as_partial (resolveConflict localTask serverTask)) (db p))))
         in p\<lparr>db := updateSyncStatus e (client_id result) StSynced (resolved_data result) w1\<rparr>)
      else if status result = Failure then
        (let (now, w1) = new_Date e (db p);
             entry = \<lparr>e_task_id = client_id result, e_operation = ''unknown'',
                      e_error = or_else (r_error result) ''Sync failed'', e_timestamp = now\<rparr>;
             w2 = (case find (\<lambda>b. q_id b = client_id result) batch of
                     None \<Rightarrow> w1
                   | Some failedItem \<Rightarrow>
                       handleSyncError failedItem (or_else (r_error result) ''Sync error'') w1)
         in p\<lparr>db := w2, totalFailed := totalFailed p + 1, errorList := errorList p @ [entry]\<rparr>)
      else p)"

text \<open>
  The body of \<^verbatim>\<open>for (const batch of batches)\<close>: the \<^verbatim>\<open>try\<close> block when the call answers,
  the \<^verbatim>\<open>catch\<close> block when it throws.
\<close>

definition run_batch :: "env \<Rightarrow> progress \<Rightarrow> sync_queue_item list \<Rightarrow> progress" where
  "run_batch e p batch =
     (let (r, w1) = processBatch e batch (db p)
      in case r of
           Inr response \<Rightarrow> foldl (process_item e batch) (p\<lparr>db := w1\<rparr>) (processed_items response)
         | Inl msg \<Rightarrow>
             p\<lparr>db := foldl (\<lambda>w item. handleSyncError item msg w) w1 batch,
               totalFailed := totalFailed p + length batch\<rparr>)"

text \<open>
  \<^verbatim>\<open>SELECT * FROM sync_queue ORDER BY created_at ASC\<close> and the \<^verbatim>\<open>map\<close> that follows it.
  Rows with equal \<^verbatim>\<open>created_at\<close> keep their table order here.
\<close>

definition snapshot :: "world \<Rightarrow> sync_queue_item list" where
  "snapshot w =
     map (\<lambda>r. r\<lparr>error_message := or_null (error_message r)\<rparr>)
       (sort_key q_created_at (sync_queue w))"

text \<open>
  \<^verbatim>\<open>sync\<close>, with \<^verbatim>\<open>this.batchSize\<close> as a parameter. The result is \<open>None\<close> when the call
  never returns. Since no statement fails, the outer \<^verbatim>\<open>catch\<close> is reached only from the
  \<^verbatim>\<open>throw\<close> that follows a failed connectivity check.
\<close>

definition sync :: "env \<Rightarrow> number \<Rightarrow> world \<Rightarrow> (sync_result \<times> world) option" where
  "sync e batchSize w =
     (if \<not> checkConnectivity e then
        (let (now, w1) = new_Date e w
         in Some (\<lparr>success = False, synced_items = 0, failed_items = 0,
                    errors = [\<lparr>e_task_id = ''global'', e_operation = ''sync'',
                               e_error = ''Server not reachable'', e_timestamp = now\<rparr>]\<rparr>, w1))
      else
        (let queueItems = snapshot w
         in if queueItems = [] then
              Some (\<lparr>success = True, synced_items = 0, failed_items = 0, errors = []\<rparr>, w)
            else
              (case batch_loop batchSize queueItems (Num 0) [] of
                 None \<Rightarrow> None
               | Some batches \<Rightarrow>
                   (let p = foldl (run_batch e)
                              \<lparr>db = w, totalSynced = 0, totalFailed = 0, errorList = []\<rparr> batches
                    in Some (\<lparr>success = (totalFailed p = 0), synced_items = totalSynced p,
                               failed_items = totalFailed p, errors = errorList p\<rparr>, db p)))))"

section \<open>Auxiliary definitions and example values\<close>

text \<open>The \<open>k\<close>-th group of \<open>b\<close> consecutive elements of a list.\<close>

definition window :: "nat \<Rightarrow> 'a list \<Rightarrow> nat \<Rightarrow> 'a list" where
  "window b xs k = take b (drop (k * b) xs)"

text \<open>The statement that \<open>handleSyncError\<close> issues first: the update of the retry count.\<close>

fun is_retry_update :: "sql_write \<Rightarrow> bool" where
  "is_retry_update (BumpRetry _ _) = True"
| "is_retry_update _ = False"

text \<open>
  A small database, used to evaluate the theorems below on concrete input: one task,
  edited locally at time 200, with one pending queue entry, and a version of the same
  task that the server edited at time 300, as the response carries it.
\<close>

definition ex_task :: task where
  "ex_task = \<lparr>t_id = ''t1'', title = ''local title'', description = ''notes'',
               completed = False, t_created_at = 100, updated_at = 200, is_deleted = False,
               sync_status = StPending, server_id = None, last_synced_at = None\<rparr>"

definition ex_server_task :: json_task where
  "ex_server_task = \<lparr>t_id = ''t1'', title = ''server title'', description = ''notes'',
                      completed = True, t_created_at = IsoString 100, updated_at = IsoString 300,
                      is_deleted = False, sync_status = StSynced, server_id = Some ''srv-t1'',
                      last_synced_at = None\<rparr>"

definition ex_payload :: partial_task where
  "ex_payload = \<lparr>p_id = None, p_title = Some ''local title'', p_description = None,
                  p_completed = None, p_created_at = None, p_updated_at = None,
                  p_is_deleted = None, p_sync_status = None, p_server_id = None,
                  p_last_synced_at = None\<rparr>"

definition ex_item :: sync_queue_item where
  "ex_item = \<lparr>q_id = ''q1'', task_id = ''t1'', operation = Update, data = ex_payload,
               q_created_at = 200, retry_count = 0, error_message = None\<rparr>"

definition ex_world :: world where
  "ex_world = \<lparr>tasks = [ex_task], sync_queue = [ex_item], journal = [], ticks = 0, uuids = 0\<rparr>"

definition ex_progress :: progress where
  "ex_progress = \<lparr>db = ex_world, totalSynced = 0, totalFailed = 0, errorList = []\<rparr>"

text \<open>A server that is down, and one that reports a conflict for every entry it is sent.\<close>

definition remote_down :: "batch_sync_request \<Rightarrow> string + batch_sync_response" where
  "remote_down req = Inl ''timeout of 8000ms exceeded''"

definition remote_conflicts :: "batch_sync_request \<Rightarrow> string + batch_sync_response" where
  "remote_conflicts req =
     Inr \<lparr>processed_items =
            map (\<lambda>it. \<lparr>client_id = task_id it, status = Conflict,
                        resolved_data = Some ex_server_task, r_error = None\<rparr>) (items req),
          server_timestamp = client_timestamp req\<rparr>"

definition ex_env :: "bool \<Rightarrow> (batch_sync_request \<Rightarrow> string + batch_sync_response) \<Rightarrow> env" where
  "ex_env h r = \<lparr>health = h, remote = r, clock = (\<lambda>n. 1000 + int n),
                  uuid = (\<lambda>n. replicate (Suc n) CHR ''u'')\<rparr>"

text \<open>A conflict outcome for the task of the example, with the server's version.\<close>

definition ex_conflict :: processed_item where
  "ex_conflict = \<lparr>client_id = ''t1'', status = Conflict, resolved_data = Some ex_server_task,
                   r_error = None\<rparr>"

text \<open>A conflict outcome that carries no resolved data.\<close>

definition ex_bare_conflict :: processed_item where
  "ex_bare_conflict = \<lparr>client_id = ''t1'', status = Conflict, resolved_data = None,
                        r_error = None\<rparr>"

section \<open>Effects of the statements\<close>

lemma exec_simps:
  "tasks (exec s w) = tasks (apply_write s w)"
  "sync_queue (exec s w) = sync_queue (apply_write s w)"
  "journal (exec s w) = journal w @ [s]"
  "ticks (exec s w) = ticks w" "uuids (exec s w) = uuids w"
  by (cases s; simp add: exec_def)+

section \<open>Conflict resolution\<close>

text \<open>
  When the server's record holds a \<^verbatim>\<open>Date\<close> object, the later of the two records is
  returned, and the server's on a tie. When it holds the ISO text of a date, as every
  record that \<open>sync\<close> passes does, the comparison is false and the server's record is
  returned whatever the two times are.
\<close>

lemma resolveConflict_dates:
  "updated_at r = DateObject u \<Longrightarrow>
   resolveConflict l r = (if updated_at l > u then date_objects l else r)"
  by (simp add: resolveConflict_def)

lemma resolveConflict_iso_text:
  "updated_at r = IsoString u \<Longrightarrow> resolveConflict l r = r"
  by (simp add: resolveConflict_def)

text \<open>
  C1. Last write wins, the local record being returned if and only if its timestamp T1
  is greater than the timestamp T2 of the remote record: this does not hold of
  \<open>resolveConflict\<close> on the records it is called with. Here the local record was
  modified at T1 = 400 and the remote record, as the response carries it, at T2 = 300,
  and the remote record is returned; had the remote timestamp been a \<^verbatim>\<open>Date\<close> object,
  the local record would have been returned.
\<close>

theorem resolveConflict_json_timestamp:
  "updated_at (ex_task\<lparr>updated_at := 400\<rparr>) = 400 \<and>
   updated_at ex_server_task = IsoString 300 \<and>
   resolveConflict (ex_task\<lparr>updated_at := 400\<rparr>) ex_server_task = ex_server_task \<and>
   title (resolveConflict (ex_task\<lparr>updated_at := 400\<rparr>) ex_server_task) = ''server title'' \<and>
   title (date_objects (ex_task\<lparr>updated_at := 400\<rparr>)) = ''local title'' \<and>
   resolveConflict (ex_task\<lparr>updated_at := 400\<rparr>) (ex_server_task\<lparr>updated_at := DateObject 300\<rparr>) =
     date_objects (ex_task\<lparr>updated_at := 400\<rparr>)"
  by (simp add: resolveConflict_def ex_task_def ex_server_task_def date_objects_def)

section \<open>Settlement\<close>

lemma updateSyncStatus_tasks:
  "tasks (updateSyncStatus e i st sd w) =
     map (\<lambda>t. if t_id t = i
                then t\<lparr>sync_status := st,
                       server_id := (case (case sd of None \<Rightarrow> None | Some d \<Rightarrow> or_null (server_id d)) of
                                       None \<Rightarrow> server_id t | Some s \<Rightarrow> Some s),
                       last_synced_at := Some (clock e (ticks w))\<rparr>
                else t) (tasks w)"
  by (simp add: updateSyncStatus_def new_Date_def exec_simps Let_def)

lemma updateSyncStatus_queue:
  "sync_queue (updateSyncStatus e i StSynced sd w) = filter (\<lambda>q. task_id q \<noteq> i) (sync_queue w)"
  by (simp add: updateSyncStatus_def new_Date_def exec_simps Let_def)

lemma updateSyncStatus_ticks:
  "ticks (updateSyncStatus e i st sd w) = ticks w + 1"
  by (simp add: updateSyncStatus_def new_Date_def exec_simps Let_def)

lemma in_mapped: "y \<in> set (map f xs) \<Longrightarrow> (\<And>x. P (f x)) \<Longrightarrow> P y"
  by auto

lemma marked_rows:
  "\<forall>t \<in> set (map (\<lambda>t. if t_id t = i
                           then t\<lparr>sync_status := st, server_id := g t, last_synced_at := l\<rparr>
                           else t) (ts :: task list)).
     t_id t = i \<longrightarrow> sync_status t = st"
proof
  fix t'
  assume "t' \<in> set (map (\<lambda>t. if t_id t = i
                                then t\<lparr>sync_status := st, server_id := g t, last_synced_at := l\<rparr>
                                else t) ts)"
  then show "t_id t' = i \<longrightarrow> sync_status t' = st"
    by (rule in_mapped) simp
qed

lemma updateSyncStatus_synced:
  "\<forall>t \<in> set (tasks (updateSyncStatus e i st sd w)). t_id t = i \<longrightarrow> sync_status t = st"
  unfolding updateSyncStatus_tasks by (rule marked_rows)

lemma updateSyncStatus_no_entries:
  "\<forall>q \<in> set (sync_queue (updateSyncStatus e i StSynced sd w)). task_id q \<noteq> i"
  by (simp add: updateSyncStatus_queue)

lemma settled_again:
  "map (\<lambda>t. if t_id t = i
             then t\<lparr>sync_status := st, server_id := (case sid of None \<Rightarrow> server_id t | Some s \<Rightarrow> Some s),
                    last_synced_at := l2\<rparr>
             else t)
     (map (\<lambda>t. if t_id t = i
                then t\<lparr>sync_status := st, server_id := (case sid of None \<Rightarrow> server_id t | Some s \<Rightarrow> Some s),
                       last_synced_at := l1\<rparr>
                else t) (ts :: task list)) =
   map (\<lambda>t. if t_id t = i
             then t\<lparr>sync_status := st, server_id := (case sid of None \<Rightarrow> server_id t | Some s \<Rightarrow> Some s),
                    last_synced_at := l2\<rparr>
             else t) ts"
  by (induction ts) (simp_all split: option.splits)

text \<open>
  C5. Settling a record as synced (\<open>updateSyncStatus\<close> with status \<^verbatim>\<open>'synced'\<close>) keeps the
  number and order of the rows of the task table; every row of that record gets the
  state \<open>StSynced\<close> and the time of the call as its last-synchronized timestamp; its
  remote identifier becomes the one of the outcome when the outcome carries a non-empty
  one, and is left as it was otherwise; no other column and no other row changes. The
  queue loses every entry whose target is that record, and keeps all others in order.
\<close>

theorem settle_success:
  "let w' = updateSyncStatus e taskId StSynced serverData w in
   length (tasks w') = length (tasks w) \<and>
   (\<forall>k < length (tasks w).
      let t = tasks w ! k; t' = tasks w' ! k in
      if t_id t = taskId then
        sync_status t' = StSynced \<and>
        last_synced_at t' = Some (clock e (ticks w)) \<and>
        (\<forall>d s. serverData = Some d \<and> server_id d = Some s \<and> s \<noteq> [] \<longrightarrow> server_id t' = Some s) \<and>
        (serverData = None \<or> (\<exists>d. serverData = Some d \<and> (server_id d = None \<or> server_id d = Some []))
           \<longrightarrow> server_id t' = server_id t) \<and>
        t' = t\<lparr>sync_status := sync_status t', server_id := server_id t', last_synced_at := last_synced_at t'\<rparr>
      else t' = t) \<and>
   sync_queue w' = filter (\<lambda>q. task_id q \<noteq> taskId) (sync_queue w) \<and>
   (\<forall>q \<in> set (sync_queue w'). task_id q \<noteq> taskId)"
  unfolding Let_def
  apply (intro conjI allI impI)
  apply (simp add: updateSyncStatus_tasks)
   apply (auto simp add: updateSyncStatus_tasks updateSyncStatus_queue split: option.splits)
  done

theorem settle_success_witness:
  "0 < length (tasks ex_world) \<and> t_id (tasks ex_world ! 0) = ''t1'' \<and>
   server_id ex_server_task = Some ''srv-t1'' \<and>
   sync_status (tasks (updateSyncStatus (ex_env True remote_down) ''t1'' StSynced
                         (Some ex_server_task) ex_world) ! 0) = StSynced \<and>
   server_id (tasks (updateSyncStatus (ex_env True remote_down) ''t1'' StSynced
                         (Some ex_server_task) ex_world) ! 0) = Some ''srv-t1'' \<and>
   last_synced_at (tasks (updateSyncStatus (ex_env True remote_down) ''t1'' StSynced
                         (Some ex_server_task) ex_world) ! 0) = Some 1000 \<and>
   sync_queue (updateSyncStatus (ex_env True remote_down) ''t1'' StSynced
                         (Some ex_server_task) ex_world) = [] \<and>
   server_id (tasks (updateSyncStatus (ex_env True remote_down) ''t1'' StSynced
                         None ex_world) ! 0) = server_id (tasks ex_world ! 0) \<and>
   tasks (updateSyncStatus (ex_env True remote_down) ''t2'' StSynced
                         (Some ex_server_task) ex_world) ! 0 = tasks ex_world ! 0"
  using settle_success[of "ex_env True remote_down" "''t1''" "Some ex_server_task" ex_world]
    settle_success[of "ex_env True remote_down" "''t1''" None ex_world]
    settle_success[of "ex_env True remote_down" "''t2''" "Some ex_server_task" ex_world]
  by (simp add: Let_def ex_world_def ex_task_def ex_server_task_def ex_item_def ex_env_def)

text \<open>
  C6. Settling the same record as synced twice in a row, with the same outcome: after
  the second call every row of the record is in state \<open>StSynced\<close> and the queue has no
  entry for the record. The second call leaves the queue as the first left it and
  changes nothing in the task table but the last-synchronized timestamp. Against the
  database before the first call: the task table has the same rows in the same order,
  those of the record synced, with the remote identifier of the outcome if it has one
  and the time of the second call as last-synchronized timestamp, all others
  untouched; the queue is the old queue without the entries of the record.
\<close>

theorem settle_twice:
  "let w1 = updateSyncStatus e taskId StSynced serverData w;
       w2 = updateSyncStatus e taskId StSynced serverData w1 in
   (\<forall>t \<in> set (tasks w2). t_id t = taskId \<longrightarrow> sync_status t = StSynced) \<and>
   (\<forall>q \<in> set (sync_queue w2). task_id q \<noteq> taskId) \<and>
   sync_queue w2 = sync_queue w1 \<and>
   map (\<lambda>t. t\<lparr>last_synced_at := None\<rparr>) (tasks w2) = map (\<lambda>t. t\<lparr>last_synced_at := None\<rparr>) (tasks w1) \<and>
   tasks w2 =
     map (\<lambda>t. if t_id t = taskId
               then t\<lparr>sync_status := StSynced,
                      server_id := (case (case serverData of None \<Rightarrow> None
                                          | Some d \<Rightarrow> or_null (server_id d)) of
                                      None \<Rightarrow> server_id t | Some s \<Rightarrow> Some s),
                      last_synced_at := Some (clock e (ticks w + 1))\<rparr>
               else t) (tasks w) \<and>
   sync_queue w2 = filter (\<lambda>q. task_id q \<noteq> taskId) (sync_queue w) \<and>
   length (tasks w2) = length (tasks w) \<and>
   (\<forall>k < length (tasks w).
      t_id (tasks w2 ! k) = t_id (tasks w ! k) \<and>
      (t_id (tasks w ! k) = taskId \<longrightarrow> sync_status (tasks w2 ! k) = StSynced) \<and>
      (t_id (tasks w ! k) \<noteq> taskId \<longrightarrow> tasks w2 ! k = tasks w ! k))"
proof -
  define w1 where "w1 = updateSyncStatus e taskId StSynced serverData w"
  define w2 where "w2 = updateSyncStatus e taskId StSynced serverData w1"
  have a: "\<forall>t \<in> set (tasks w2). t_id t = taskId \<longrightarrow> sync_status t = StSynced"
    unfolding w2_def by (rule updateSyncStatus_synced)
  have b: "\<forall>q \<in> set (sync_queue w2). task_id q \<noteq> taskId"
    unfolding w2_def by (rule updateSyncStatus_no_entries)
  have c: "sync_queue w2 = sync_queue w1"
    unfolding w2_def w1_def by (simp add: updateSyncStatus_queue)
  have d: "map (\<lambda>t. t\<lparr>last_synced_at := None\<rparr>) (tasks w2) = map (\<lambda>t. t\<lparr>last_synced_at := None\<rparr>) (tasks w1)"
    unfolding w2_def w1_def by (auto simp add: updateSyncStatus_tasks split: option.splits)
  have t: "tasks w2 =
     map (\<lambda>t. if t_id t = taskId
               then t\<lparr>sync_status := StSynced,
                      server_id := (case (case serverData of None \<Rightarrow> None
                                          | Some d \<Rightarrow> or_null (server_id d)) of
                                      None \<Rightarrow> server_id t | Some s \<Rightarrow> Some s),
                      last_synced_at := Some (clock e (ticks w + 1))\<rparr>
               else t) (tasks w)"
    unfolding w2_def w1_def updateSyncStatus_tasks updateSyncStatus_ticks
    by (rule settled_again)
  have q: "sync_queue w2 = filter (\<lambda>q. task_id q \<noteq> taskId) (sync_queue w)"
    unfolding w2_def w1_def by (simp add: updateSyncStatus_queue)
  have l: "length (tasks w2) = length (tasks w)" by (simp add: t)
  have n: "t_id (tasks w2 ! k) = t_id (tasks w ! k) \<and>
      (t_id (tasks w ! k) = taskId \<longrightarrow> sync_status (tasks w2 ! k) = StSynced) \<and>
      (t_id (tasks w ! k) \<noteq> taskId \<longrightarrow> tasks w2 ! k = tasks w ! k)" if "k < length (tasks w)" for k
    using that by (simp add: t)
  from a b c d t q l n show ?thesis unfolding Let_def w1_def w2_def by blast
qed

theorem settle_twice_witness:
  "ex_task \<in> set (tasks ex_world) \<and> t_id ex_task = ''t1'' \<and>
   ex_item \<in> set (sync_queue ex_world) \<and> task_id ex_item = ''t1'' \<and>
   (0::nat) < length (tasks ex_world) \<and> t_id (tasks ex_world ! 0) = ''t1'' \<and>
   tasks (updateSyncStatus (ex_env True remote_down) ''t1'' StSynced None
          (updateSyncStatus (ex_env True remote_down) ''t1'' StSynced None ex_world)) =
     [ex_task\<lparr>sync_status := StSynced, last_synced_at := Some 1001\<rparr>] \<and>
   map sync_status (tasks (updateSyncStatus (ex_env True remote_down) ''t1'' StSynced None
          (updateSyncStatus (ex_env True remote_down) ''t1'' StSynced None ex_world))) = [StSynced] \<and>
   sync_queue (updateSyncStatus (ex_env True remote_down) ''t1'' StSynced None
          (updateSyncStatus (ex_env True remote_down) ''t1'' StSynced None ex_world)) = [] \<and>
   tasks (updateSyncStatus (ex_env True remote_down) ''t2'' StSynced None
          (updateSyncStatus (ex_env True remote_down) ''t2'' StSynced None ex_world)) ! 0 =
     tasks ex_world ! 0"
  using settle_twice[of "ex_env True remote_down" "''t1''" None ex_world]
    settle_twice[of "ex_env True remote_down" "''t2''" None ex_world]
  by (simp add: Let_def updateSyncStatus_tasks updateSyncStatus_queue
        ex_world_def ex_task_def ex_item_def ex_env_def)

section \<open>Retry ledger\<close>

lemma filter_bumped:
  "filter (\<lambda>q. q_id q \<noteq> i)
     (map (\<lambda>q. if q_id q = i then q\<lparr>retry_count := retry_count q + 1, error_message := Some msg\<rparr> else q)
        (qs :: sync_queue_item list)) =
   filter (\<lambda>q. q_id q \<noteq> i) qs"
  by (induction qs) auto

lemma find_bumped:
  "find (\<lambda>q. q_id q = i) 
     (map (\<lambda>q. if q_id q = i then q\<lparr>retry_count := retry_count q + 1, error_message := Some msg\<rparr> else q)
        (qs :: sync_queue_item list)) =
   map_option (\<lambda>q. q\<lparr>retry_count := retry_count q + 1, error_message := Some msg\<rparr>) (find (\<lambda>q. q_id q = i) qs)"
  by (induction qs) auto

lemma handleSyncError_queue:
  "sync_queue (handleSyncError item msg w) =
    (case find (\<lambda>q. q_id q = q_id item) (sync_queue w) of
       None \<Rightarrow> sync_queue w
     | Some entry \<Rightarrow>
         if retry_count entry + 1 > 3
         then filter (\<lambda>q. q_id q \<noteq> q_id item) (sync_queue w)
         else map (\<lambda>q. if q_id q = q_id item
                        then q\<lparr>retry_count := retry_count q + 1, error_message := Some msg\<rparr>
                        else q) (sync_queue w))"
proof (cases "find (\<lambda>q. q_id q = q_id item) (sync_queue w)")
  case None
  then have "\<forall>q \<in> set (sync_queue w). q_id q \<noteq> q_id item"
    by (simp add: find_None_iff)
  then have "map (\<lambda>q. if q_id q = q_id item
                        then q\<lparr>retry_count := retry_count q + 1, error_message := Some msg\<rparr>
                        else q) (sync_queue w) = sync_queue w"
    by (simp add: map_idI)
  with None show ?thesis
    by (simp add: handleSyncError_def exec_simps find_bumped Let_def)
next
  case (Some entry)
  from Some show ?thesis
    by (simp add: handleSyncError_def exec_simps find_bumped filter_bumped Let_def)
qed

lemma handleSyncError_find:
  assumes "find (\<lambda>q. q_id q = q_id item) (sync_queue w) = Some entry"
  shows "find (\<lambda>q. q_id q = q_id item) (sync_queue (handleSyncError item msg w)) =
           (if retry_count entry + 1 > 3 then None
            else Some (entry\<lparr>retry_count := retry_count entry + 1, error_message := Some msg\<rparr>))"
  using assms by (simp add: handleSyncError_queue find_bumped find_None_iff)

lemma handleSyncError_others:
  "filter (\<lambda>q. q_id q \<noteq> q_id item) (sync_queue (handleSyncError item msg w)) =
   filter (\<lambda>q. q_id q \<noteq> q_id item) (sync_queue w)"
  by (simp add: handleSyncError_queue filter_bumped split: option.splits)

lemma repeated_failures:
  assumes "find (\<lambda>q. q_id q = q_id item) (sync_queue w) = Some entry"
    and "retry_count entry + length msgs \<le> 3"
  shows "find (\<lambda>q. q_id q = q_id item) (sync_queue (foldl (\<lambda>w m. handleSyncError item m w) w msgs)) =
           Some (entry\<lparr>retry_count := retry_count entry + length msgs,
                       error_message := (if msgs = [] then error_message entry else Some (last msgs))\<rparr>)"
  using assms
proof (induction msgs arbitrary: w entry)
  case Nil
  then show ?case by simp
next
  case (Cons m msgs)
  let ?e = "entry\<lparr>retry_count := retry_count entry + 1, error_message := Some m\<rparr>"
  have "find (\<lambda>q. q_id q = q_id item) (sync_queue (handleSyncError item m w)) = Some ?e"
    using Cons.prems by (simp add: handleSyncError_find)
  moreover have "retry_count ?e + length msgs \<le> 3" using Cons.prems by simp
  ultimately have "find (\<lambda>q. q_id q = q_id item)
       (sync_queue (foldl (\<lambda>w m. handleSyncError item m w) (handleSyncError item m w) msgs)) =
           Some (?e\<lparr>retry_count := retry_count ?e + length msgs,
                       error_message := (if msgs = [] then error_message ?e else Some (last msgs))\<rparr>)"
    by (rule Cons.IH)
  then show ?case by simp
qed

lemma snapshot_ids: "q_id ` set (snapshot w) = q_id ` set (sync_queue w)"
  by (auto simp: snapshot_def image_iff)

text \<open>
  C4. Let the queue hold an entry with the identifier of \<open>item\<close>. One recorded failure
  raises its retry count by one and stores the error text, and the entry stays in the
  queue, as long as the new count does not exceed 3; when the new count exceeds 3 the
  entry is deleted. So an entry that starts at retry count 0 is still in the queue,
  with the number of failures as its count and the last error text, after one, two or
  three failures, and after exactly 3 + 1 failures it is gone from the queue and from
  the snapshot that the next cycle reads. The entries with another identifier are not
  touched.
\<close>

theorem retry_expiry:
  assumes "find (\<lambda>q. q_id q = q_id item) (sync_queue w) = Some entry"
  shows "(retry_count entry < 3 \<longrightarrow>
            find (\<lambda>q. q_id q = q_id item) (sync_queue (handleSyncError item msg w)) =
              Some (entry\<lparr>retry_count := retry_count entry + 1, error_message := Some msg\<rparr>)) \<and>
         (retry_count entry \<ge> 3 \<longrightarrow>
            q_id item \<notin> q_id ` set (sync_queue (handleSyncError item msg w))) \<and>
         (retry_count entry = 0 \<and> msgs \<noteq> [] \<and> length msgs \<le> 3 \<longrightarrow>
            find (\<lambda>q. q_id q = q_id item)
              (sync_queue (foldl (\<lambda>w m. handleSyncError item m w) w msgs)) =
              Some (entry\<lparr>retry_count := length msgs, error_message := Some (last msgs)\<rparr>)) \<and>
         (retry_count entry = 0 \<and> length msgs = 3 + 1 \<longrightarrow>
            q_id item \<notin> q_id ` set (sync_queue (foldl (\<lambda>w m. handleSyncError item m w) w msgs)) \<and>
            q_id item \<notin> q_id ` set (snapshot (foldl (\<lambda>w m. handleSyncError item m w) w msgs))) \<and>
         filter (\<lambda>q. q_id q \<noteq> q_id item) (sync_queue (handleSyncError item msg w)) =
           filter (\<lambda>q. q_id q \<noteq> q_id item) (sync_queue w)"
proof (intro conjI impI)
  show "filter (\<lambda>q. q_id q \<noteq> q_id item) (sync_queue (handleSyncError item msg w)) =
           filter (\<lambda>q. q_id q \<noteq> q_id item) (sync_queue w)"
    by (rule handleSyncError_others)
next
  assume "retry_count entry < 3"
  then show "find (\<lambda>q. q_id q = q_id item) (sync_queue (handleSyncError item msg w)) =
              Some (entry\<lparr>retry_count := retry_count entry + 1, error_message := Some msg\<rparr>)"
    using assms by (simp add: handleSyncError_find)
next
  assume "retry_count entry \<ge> 3"
  then show "q_id item \<notin> q_id ` set (sync_queue (handleSyncError item msg w))"
    using assms by (auto simp add: handleSyncError_queue)
next
  assume "retry_count entry = 0 \<and> msgs \<noteq> [] \<and> length msgs \<le> 3"
  then show "find (\<lambda>q. q_id q = q_id item)
              (sync_queue (foldl (\<lambda>w m. handleSyncError item m w) w msgs)) =
              Some (entry\<lparr>retry_count := length msgs, error_message := Some (last msgs)\<rparr>)"
    using repeated_failures[OF assms, of msgs] by simp
next
  assume a: "retry_count entry = 0 \<and> length msgs = 3 + 1"
  then obtain ms m where ms: "msgs = ms @ [m]" "length ms = 3"
    by (metis add_diff_cancel_right' append_butlast_last_id length_butlast list.size(3) zero_neq_numeral add_is_0 one_neq_zero)
  let ?w3 = "foldl (\<lambda>w m. handleSyncError item m w) w ms"
  have f3: "find (\<lambda>q. q_id q = q_id item) (sync_queue ?w3) =
      Some (entry\<lparr>retry_count := 3, error_message := Some (last ms)\<rparr>)"
    using repeated_failures[OF assms, of ms] a ms by auto
  have "find (\<lambda>q. q_id q = q_id item) (sync_queue (handleSyncError item m ?w3)) = None"
    using handleSyncError_find[OF f3, of m] by simp
  then show g: "q_id item \<notin> q_id ` set (sync_queue (foldl (\<lambda>w m. handleSyncError item m w) w msgs))"
    using ms by (auto simp: find_None_iff)
  show "q_id item \<notin> q_id ` set (snapshot (foldl (\<lambda>w m. handleSyncError item m w) w msgs))"
    using g by (simp only: snapshot_ids not_False_eq_True)
qed

theorem retry_expiry_witness:
  "find (\<lambda>q. q_id q = q_id ex_item) (sync_queue ex_world) = Some ex_item \<and>
   retry_count ex_item = 0 \<and>
   find (\<lambda>q. q_id q = q_id ex_item) (sync_queue (handleSyncError ex_item ''e1'' ex_world)) =
     Some (ex_item\<lparr>retry_count := 1, error_message := Some ''e1''\<rparr>) \<and>
   find (\<lambda>q. q_id q = q_id ex_item)
     (sync_queue (foldl (\<lambda>w m. handleSyncError ex_item m w) ex_world [''e1'', ''e2'', ''e3''])) =
     Some (ex_item\<lparr>retry_count := 3, error_message := Some ''e3''\<rparr>) \<and>
   q_id ex_item \<notin> q_id ` set (sync_queue
     (foldl (\<lambda>w m. handleSyncError ex_item m w) ex_world [''e1'', ''e2'', ''e3'', ''e4''])) \<and>
   q_id ex_item \<notin> q_id ` set (snapshot
     (foldl (\<lambda>w m. handleSyncError ex_item m w) ex_world [''e1'', ''e2'', ''e3'', ''e4''])) \<and>
   find (\<lambda>q. q_id q = q_id ex_item)
     (sync_queue (ex_world\<lparr>sync_queue := [ex_item\<lparr>retry_count := 3\<rparr>]\<rparr>)) =
     Some (ex_item\<lparr>retry_count := 3\<rparr>) \<and>
   q_id ex_item \<notin> q_id ` set (sync_queue
     (handleSyncError ex_item ''e4'' (ex_world\<lparr>sync_queue := [ex_item\<lparr>retry_count := 3\<rparr>]\<rparr>)))"
proof -
  have f: "find (\<lambda>q. q_id q = q_id ex_item) (sync_queue ex_world) = Some ex_item"
    by (simp add: ex_world_def)
  have g: "find (\<lambda>q. q_id q = q_id ex_item)
     (sync_queue (ex_world\<lparr>sync_queue := [ex_item\<lparr>retry_count := 3\<rparr>]\<rparr>)) =
     Some (ex_item\<lparr>retry_count := 3\<rparr>)"
    by simp
  have z: "retry_count ex_item = 0" by (simp add: ex_item_def)
  show ?thesis
    using f g z retry_expiry[OF f, where msgs = "[''e1'', ''e2'', ''e3'']" and msg = "''e1''"]
      retry_expiry[OF f, where msgs = "[''e1'', ''e2'', ''e3'', ''e4'']"]
      retry_expiry[OF g, where msg = "''e4''"]
    by simp
qed

section \<open>Batching\<close>

lemma js_slice_window:
  assumes "0 \<le> i" "0 < b"
  shows "js_slice xs (Num i) (js_add (Num i) (Num b)) = take (nat b) (drop (nat i) xs)"
  using assms by (auto simp: js_slice_def clamp_index_def Let_def min_def max_def
      intro!: take_all_iff[THEN iffD2] )

lemma ceil_div_less: "0 < b \<Longrightarrow> j < (n + b - 1) div b \<longleftrightarrow> j * b < (n::nat)"
proof -
  assume b: "0 < b"
  have "j < (n + b - 1) div b \<longleftrightarrow> Suc j \<le> (n + b - 1) div b" by auto
  also have "\<dots> \<longleftrightarrow> Suc j * b \<le> n + b - 1" using b by (simp add: less_eq_div_iff_mult_less_eq)
  also have "\<dots> \<longleftrightarrow> j * b < n" using b by auto
  finally show ?thesis .
qed

lemma batch_loop_from:
  assumes "0 < b" "j \<le> (length xs + b - 1) div b"
  shows "batch_loop (Num (int b)) xs (Num (int (j * b))) (map (window b xs) [0..<j]) =
           Some (map (window b xs) [0..<(length xs + b - 1) div b])"
  using assms
proof (induction "(length xs + b - 1) div b - j" arbitrary: j)
  case 0
  then have j: "j = (length xs + b - 1) div b" by simp
  then have "\<not> j * b < length xs" using ceil_div_less[OF \<open>0 < b\<close>, of j "length xs"] by simp
  then show ?case
    by (subst batch_loop.simps) (simp add: j of_nat_mult[symmetric] del: of_nat_mult)
next
  case (Suc d)
  then have lt: "j < (length xs + b - 1) div b" by simp
  then have "j * b < length xs" using ceil_div_less[OF \<open>0 < b\<close>, of j "length xs"] by simp
  moreover have "js_slice xs (Num (int (j * b))) (js_add (Num (int (j * b))) (Num (int b))) = window b xs j"
    using \<open>0 < b\<close> js_slice_window[of "int (j * b)" "int b" xs] by (simp add: window_def del: of_nat_mult)
  moreover have "batch_loop (Num (int b)) xs (Num (int (Suc j * b))) (map (window b xs) [0..<Suc j]) =
           Some (map (window b xs) [0..<(length xs + b - 1) div b])"
    using Suc lt by (intro Suc.hyps(1)) auto
  moreover have "int (j * b) + int b = int (Suc j * b)" by (simp add: algebra_simps)
  ultimately show ?case
    by (subst batch_loop.simps) (simp del: of_nat_mult of_nat_add mult_Suc)
qed

lemma concat_windows: "concat (map (window b xs) [0..<m]) = take (m * b) xs"
proof (induction m)
  case 0
  then show ?case by simp
next
  case (Suc m)
  have "take (Suc m * b) xs = take (m * b + b) xs" by (simp add: add.commute)
  also have "\<dots> = take (m * b) xs @ window b xs m" by (simp add: take_add window_def)
  finally show ?case using Suc by simp
qed

lemma ceiling_div_nat:
  assumes "0 < b"
  shows "\<lceil>real n / real b\<rceil> = int ((n + b - 1) div b)"
proof -
  let ?m = "(n + b - 1) div b"
  have up: "n \<le> ?m * b"
    using ceil_div_less[OF assms, of ?m n] by simp
  have low: "real n > (real ?m - 1) * real b"
  proof (cases "?m = 0")
    case True
    then show ?thesis using assms
      by (simp add: mult_less_0_iff)
  next
    case False
    then have "(?m - 1) * b < n"
      using ceil_div_less[OF assms, of "?m - 1" n] by simp
    then have "real ((?m - 1) * b) < real n" by (simp only: of_nat_less_iff)
    moreover have "real ((?m - 1) * b) = (real ?m - 1) * real b"
      using False by (simp add: of_nat_diff)
    ultimately show ?thesis by (simp only:)
  qed
  have "real n \<le> real (?m * b)" using up by (simp only: of_nat_le_iff)
  then have "real n / real b \<le> real ?m" using assms by (simp add: pos_divide_le_eq)
  moreover have "real ?m - 1 < real n / real b" using assms low by (simp add: pos_less_divide_eq)
  ultimately show ?thesis by (intro ceiling_unique) auto
qed



lemma batch_loop_positive:
  assumes "0 < b"
  shows "batch_loop (Num b) xs (Num 0) [] =
           Some (map (window (nat b) xs) [0..<(length xs + nat b - 1) div nat b])"
  using batch_loop_from[of "nat b" 0 xs] assms by simp

text \<open>
  C7. For a list of N entries and a positive batch size B the loop ends and yields
  exactly \<open>\<lceil>N / B\<rceil>\<close> batches; the \<open>k\<close>-th batch is the \<open>B\<close> entries that follow the first
  \<open>k * B\<close> ones, so every batch but the last has size \<open>B\<close>, the last one is not empty
  and has at most \<open>B\<close> entries, and the batches concatenated in order are the input.
\<close>

theorem batching_partition:
  assumes "0 < b"
  shows "\<exists>batches. batch_loop (Num b) queueItems (Num 0) [] = Some batches \<and>
           int (length batches) = \<lceil>real (length queueItems) / real_of_int b\<rceil> \<and>
           (\<forall>k < length batches. batches ! k = take (nat b) (drop (k * nat b) queueItems)) \<and>
           (\<forall>k. Suc k < length batches \<longrightarrow> length (batches ! k) = nat b) \<and>
           (batches \<noteq> [] \<longrightarrow> 0 < length (last batches) \<and> length (last batches) \<le> nat b) \<and>
           concat batches = queueItems"
proof -
  define B where "B = nat b"
  define m where "m = (length queueItems + B - 1) div B"
  define batches where "batches = map (window B queueItems) [0..<m]"
  have B: "0 < B" "b = int B" using assms by (simp_all add: B_def)
  have run: "batch_loop (Num b) queueItems (Num 0) [] = Some batches"
    using batch_loop_positive[OF assms] by (simp add: batches_def m_def B_def)
  have len: "length batches = m" by (simp add: batches_def)
  have count: "int (length batches) = \<lceil>real (length queueItems) / real_of_int b\<rceil>"
    using ceiling_div_nat[OF B(1), of "length queueItems"] by (simp add: len m_def B(2))
  have nth: "batches ! k = take B (drop (k * B) queueItems)" if "k < length batches" for k
    using that by (simp add: batches_def window_def)
  have less: "k * B < length queueItems" if "k < m" for k
    using that ceil_div_less[OF B(1), of k "length queueItems"] by (simp add: m_def)
  have full: "length (batches ! k) = B" if "Suc k < length batches" for k
  proof -
    from that have "Suc k * B < length queueItems" using less[of "Suc k"] len by simp
    then show ?thesis using that nth[of k] by simp
  qed
  have lastb: "0 < length (last batches) \<and> length (last batches) \<le> B" if "batches \<noteq> []"
  proof -
    from that have m: "0 < m" using len by (cases batches) auto
    then have "last batches = batches ! (m - 1)" using that len by (simp add: last_conv_nth)
    also have "\<dots> = take B (drop ((m - 1) * B) queueItems)" using m len nth by simp
    finally have "last batches = take B (drop ((m - 1) * B) queueItems)" .
    moreover have "(m - 1) * B < length queueItems" using less[of "m - 1"] m by simp
    ultimately show ?thesis using B(1) by simp
  qed
  have "length queueItems \<le> m * B"
    using ceil_div_less[OF B(1), of m "length queueItems"] by (simp add: m_def)
  then have cat: "concat batches = queueItems"
    by (simp add: batches_def concat_windows)
  from run count nth full lastb cat show ?thesis
    unfolding B_def by blast
qed

theorem batching_partition_witness:
  "(0::int) < 2 \<and>
   batch_loop (Num 2) [ex_item, ex_item\<lparr>q_id := ''q2''\<rparr>, ex_item\<lparr>q_id := ''q3''\<rparr>] (Num 0) [] =
        Some [[ex_item, ex_item\<lparr>q_id := ''q2''\<rparr>], [ex_item\<lparr>q_id := ''q3''\<rparr>]] \<and>
   (\<exists>batches. batch_loop (Num 2) [ex_item, ex_item\<lparr>q_id := ''q2''\<rparr>, ex_item\<lparr>q_id := ''q3''\<rparr>] (Num 0) [] =
        Some batches \<and>
      int (length batches) = \<lceil>real 3 / real_of_int 2\<rceil> \<and>
      length batches = 2 \<and>
      concat batches = [ex_item, ex_item\<lparr>q_id := ''q2''\<rparr>, ex_item\<lparr>q_id := ''q3''\<rparr>])"
proof -
  have c: "\<lceil>real 3 / real_of_int 2\<rceil> = 2" by (simp add: ceiling_eq_iff)
  have u: "[0..<2] = [0, Suc 0]" by (simp add: upt_rec)
  have v: "batch_loop (Num 2) [ex_item, ex_item\<lparr>q_id := ''q2''\<rparr>, ex_item\<lparr>q_id := ''q3''\<rparr>] (Num 0) [] =
        Some [[ex_item, ex_item\<lparr>q_id := ''q2''\<rparr>], [ex_item\<lparr>q_id := ''q3''\<rparr>]]"
    by (simp add: batch_loop_positive window_def u)
  from c v show ?thesis
    using batching_partition[of 2 "[ex_item, ex_item\<lparr>q_id := ''q2''\<rparr>, ex_item\<lparr>q_id := ''q3''\<rparr>]"]
    by auto
qed

section \<open>The cycle\<close>

text \<open>
  C3. When the connectivity probe fails, \<open>sync\<close> returns: the result has
  \<open>success = False\<close>, both counts 0 and exactly one error entry, whose \<open>task_id\<close> is
  \<^verbatim>\<open>'global'\<close>; the queue and the task table are as before, and no statement was issued.
\<close>

theorem sync_unreachable:
  assumes "\<not> checkConnectivity e"
  shows "\<exists>r w'. sync e batchSize w = Some (r, w') \<and>
           success r = False \<and> synced_items r = 0 \<and> failed_items r = 0 \<and>
           length (errors r) = 1 \<and> e_task_id (hd (errors r)) = ''global'' \<and>
           sync_queue w' = sync_queue w \<and> tasks w' = tasks w \<and> journal w' = journal w"
  using assms by (simp add: sync_def new_Date_def)

theorem sync_unreachable_witness:
  "\<not> checkConnectivity (ex_env False remote_down) \<and>
   (\<exists>r w'. sync (ex_env False remote_down) (Num 10) ex_world = Some (r, w') \<and>
           success r = False \<and> synced_items r = 0 \<and> failed_items r = 0 \<and>
           length (errors r) = 1 \<and> e_task_id (hd (errors r)) = ''global'' \<and>
           sync_queue w' = sync_queue ex_world \<and> tasks w' = tasks ex_world \<and>
           journal w' = journal ex_world)"
  using sync_unreachable[of "ex_env False remote_down" "Num 10" ex_world]
  by (simp add: checkConnectivity_def ex_env_def)

lemma handleSyncError_journal:
  "\<exists>new. journal (handleSyncError item msg w) = journal w @ new \<and>
         filter is_retry_update new = [BumpRetry msg (q_id item)]"
  by (auto simp: handleSyncError_def Let_def exec_simps split: option.splits)

lemma handleSyncError_tasks: "tasks (handleSyncError item msg w) = tasks w"
  by (auto simp: handleSyncError_def Let_def exec_simps split: option.splits)

lemma handleSyncError_all_journal:
  "\<exists>new. journal (foldl (\<lambda>w item. handleSyncError item msg w) w batch) = journal w @ new \<and>
         filter is_retry_update new = map (\<lambda>item. BumpRetry msg (q_id item)) batch"
proof (induction batch arbitrary: w)
  case Nil
  then show ?case by simp
next
  case (Cons item batch)
  obtain n1 where n1: "journal (handleSyncError item msg w) = journal w @ n1"
    "filter is_retry_update n1 = [BumpRetry msg (q_id item)]"
    using handleSyncError_journal by blast
  obtain n2 where n2: "journal (foldl (\<lambda>w item. handleSyncError item msg w) (handleSyncError item msg w) batch)
       = journal (handleSyncError item msg w) @ n2"
    "filter is_retry_update n2 = map (\<lambda>item. BumpRetry msg (q_id item)) batch"
    using Cons.IH by blast
  show ?case
    by (rule exI[of _ "n1 @ n2"]) (simp add: n1 n2)
qed

lemma handleSyncError_all_tasks:
  "tasks (foldl (\<lambda>w item. handleSyncError item msg w) w batch) = tasks w"
  by (induction batch arbitrary: w) (simp_all add: handleSyncError_tasks)

lemma find_other_filter:
  "i \<noteq> j \<Longrightarrow> find (\<lambda>q. q_id q = i) (filter (\<lambda>q. q_id q \<noteq> j) (qs :: sync_queue_item list)) =
     find (\<lambda>q. q_id q = i) qs"
  by (induction qs) auto

lemma find_other_bumped:
  "i \<noteq> j \<Longrightarrow>
   find (\<lambda>q. q_id q = i)
     (map (\<lambda>q. if q_id q = j then q\<lparr>retry_count := retry_count q + 1, error_message := Some msg\<rparr> else q)
        (qs :: sync_queue_item list)) =
   find (\<lambda>q. q_id q = i) qs"
  by (induction qs) auto

lemma handleSyncError_other:
  assumes "i \<noteq> q_id item"
  shows "find (\<lambda>q. q_id q = i) (sync_queue (handleSyncError item msg w)) =
         find (\<lambda>q. q_id q = i) (sync_queue w)"
  using assms
  by (simp add: handleSyncError_queue find_other_filter find_other_bumped split: option.splits)

lemma handleSyncError_all_other:
  assumes "i \<notin> q_id ` set batch"
  shows "find (\<lambda>q. q_id q = i) (sync_queue (foldl (\<lambda>w item. handleSyncError item msg w) w batch)) =
         find (\<lambda>q. q_id q = i) (sync_queue w)"
  using assms
proof (induction batch arbitrary: w)
  case Nil
  show ?case by simp
next
  case (Cons x xs)
  from Cons.prems have "i \<noteq> q_id x" "i \<notin> q_id ` set xs" by auto
  then show ?case
    using Cons.IH[of "handleSyncError x msg w"] by (simp add: handleSyncError_other)
qed

lemma handleSyncError_all_find:
  assumes "distinct (map q_id batch)" and "item \<in> set batch"
    and "find (\<lambda>q. q_id q = q_id item) (sync_queue w) = Some entry"
  shows "find (\<lambda>q. q_id q = q_id item)
           (sync_queue (foldl (\<lambda>w item. handleSyncError item msg w) w batch)) =
         (if retry_count entry + 1 > 3 then None
          else Some (entry\<lparr>retry_count := retry_count entry + 1, error_message := Some msg\<rparr>))"
  using assms
proof (induction batch arbitrary: w)
  case Nil
  then show ?case by simp
next
  case (Cons x xs)
  show ?case
  proof (cases "q_id x = q_id item")
    case True
    from Cons.prems(1) True have out: "q_id item \<notin> q_id ` set xs" by auto
    have "find (\<lambda>q. q_id q = q_id item) (sync_queue (handleSyncError x msg w)) =
           (if retry_count entry + 1 > 3 then None
            else Some (entry\<lparr>retry_count := retry_count entry + 1, error_message := Some msg\<rparr>))"
      using handleSyncError_find[of x w entry msg] Cons.prems(3) True by simp
    then show ?thesis
      using handleSyncError_all_other[OF out, of msg "handleSyncError x msg w"] by simp
  next
    case False
    with Cons.prems(2) have "item \<in> set xs" by auto
    moreover from Cons.prems(1) have "distinct (map q_id xs)" by simp
    moreover have "find (\<lambda>q. q_id q = q_id item) (sync_queue (handleSyncError x msg w)) = Some entry"
      using False Cons.prems(3) by (simp add: handleSyncError_other)
    ultimately show ?thesis
      using Cons.IH[of "handleSyncError x msg w"] by simp
  qed
qed

text \<open>
  C8. When the call for a batch of K entries throws, the cycle adds exactly K to the
  failed count (the synced count and the error list stay as they are), and the
  statements it issues contain exactly K updates of a retry count: one per entry of
  the batch, in the order of the batch, each with the message of the thrown error. The
  task table is not written. When the entries of the batch have different identifiers,
  each of them that is still in the queue gets its retry count raised by exactly one
  and the message stored, or is deleted when the new count exceeds 3.
\<close>

theorem batch_transport_failure:
  assumes "remote e \<lparr>items = batch, client_timestamp = clock e (ticks (db p))\<rparr> = Inl msg"
  shows "totalFailed (run_batch e p batch) = totalFailed p + length batch \<and>
         totalSynced (run_batch e p batch) = totalSynced p \<and>
         errorList (run_batch e p batch) = errorList p \<and>
         tasks (db (run_batch e p batch)) = tasks (db p) \<and>
         (\<exists>new. journal (db (run_batch e p batch)) = journal (db p) @ new \<and>
                filter is_retry_update new = map (\<lambda>item. BumpRetry msg (q_id item)) batch \<and>
                length (filter is_retry_update new) = length batch) \<and>
         (distinct (map q_id batch) \<longrightarrow>
            (\<forall>item \<in> set batch. \<forall>entry.
               find (\<lambda>q. q_id q = q_id item) (sync_queue (db p)) = Some entry \<longrightarrow>
               find (\<lambda>q. q_id q = q_id item) (sync_queue (db (run_batch e p batch))) =
                 (if retry_count entry + 1 > 3 then None
                  else Some (entry\<lparr>retry_count := retry_count entry + 1,
                                    error_message := Some msg\<rparr>))))"
proof -
  let ?w1 = "(db p)\<lparr>ticks := ticks (db p) + 1\<rparr>"
  have rb: "run_batch e p batch =
      p\<lparr>db := foldl (\<lambda>w item. handleSyncError item msg w) ?w1 batch,
        totalFailed := totalFailed p + length batch\<rparr>"
    using assms by (simp add: run_batch_def processBatch_def new_Date_def)
  obtain new where new: "journal (foldl (\<lambda>w item. handleSyncError item msg w) ?w1 batch) = journal ?w1 @ new"
    "filter is_retry_update new = map (\<lambda>item. BumpRetry msg (q_id item)) batch"
    using handleSyncError_all_journal by blast
  have len: "length (filter is_retry_update new) = length batch" by (simp add: new(2))
  have eff: "find (\<lambda>q. q_id q = q_id item) (sync_queue (db (run_batch e p batch))) =
                 (if retry_count entry + 1 > 3 then None
                  else Some (entry\<lparr>retry_count := retry_count entry + 1,
                                    error_message := Some msg\<rparr>))"
    if "distinct (map q_id batch)" "item \<in> set batch"
      "find (\<lambda>q. q_id q = q_id item) (sync_queue (db p)) = Some entry" for item entry
    using handleSyncError_all_find[OF that(1,2), of ?w1 entry msg] that(3) by (simp add: rb)
  have counts: "totalFailed (run_batch e p batch) = totalFailed p + length batch \<and>
         totalSynced (run_batch e p batch) = totalSynced p \<and>
         errorList (run_batch e p batch) = errorList p \<and>
         tasks (db (run_batch e p batch)) = tasks (db p)"
    by (simp add: rb handleSyncError_all_tasks)
  have jr: "\<exists>new. journal (db (run_batch e p batch)) = journal (db p) @ new \<and>
                filter is_retry_update new = map (\<lambda>item. BumpRetry msg (q_id item)) batch \<and>
                length (filter is_retry_update new) = length batch"
    using new len by (simp add: rb)
  from counts jr eff show ?thesis by blast
qed

theorem batch_transport_failure_witness:
  "remote (ex_env True remote_down)
     \<lparr>items = [ex_item], client_timestamp = clock (ex_env True remote_down) (ticks (db ex_progress))\<rparr> =
     Inl ''timeout of 8000ms exceeded'' \<and>
   distinct (map q_id [ex_item]) \<and>
   find (\<lambda>q. q_id q = q_id ex_item) (sync_queue (db ex_progress)) = Some ex_item \<and>
   totalFailed (run_batch (ex_env True remote_down) ex_progress [ex_item]) = 1 \<and>
   (\<exists>new. journal (db (run_batch (ex_env True remote_down) ex_progress [ex_item])) = new \<and>
          filter is_retry_update new = [BumpRetry ''timeout of 8000ms exceeded'' ''q1'']) \<and>
   find (\<lambda>q. q_id q = q_id ex_item)
     (sync_queue (db (run_batch (ex_env True remote_down) ex_progress [ex_item]))) =
     Some (ex_item\<lparr>retry_count := 1, error_message := Some ''timeout of 8000ms exceeded''\<rparr>)"
proof -
  have r: "remote (ex_env True remote_down)
     \<lparr>items = [ex_item], client_timestamp = clock (ex_env True remote_down) (ticks (db ex_progress))\<rparr> =
     Inl ''timeout of 8000ms exceeded''"
    by (simp add: ex_env_def remote_down_def)
  have f: "find (\<lambda>q. q_id q = q_id ex_item) (sync_queue (db ex_progress)) = Some ex_item"
    by (simp add: ex_progress_def ex_world_def)
  have z: "retry_count ex_item = 0" "q_id ex_item = ''q1''" by (simp_all add: ex_item_def)
  have j: "journal (db ex_progress) = []" "totalFailed ex_progress = 0"
    by (simp_all add: ex_progress_def ex_world_def)
  show ?thesis
    using r f z j batch_transport_failure[OF r]
    by auto
qed

lemma process_item_conflict_counters:
  assumes "status result = Conflict"
  shows "totalSynced (process_item e batch p result) = totalSynced p \<and>
         totalFailed (process_item e batch p result) = totalFailed p \<and>
         errorList (process_item e batch p result) = errorList p"
  using assms by (simp add: process_item_def Let_def)

lemma conflicts_counters:
  assumes "\<forall>r \<in> set rs. status r = Conflict"
  shows "totalSynced (foldl (process_item e batch) p rs) = totalSynced p \<and>
         totalFailed (foldl (process_item e batch) p rs) = totalFailed p \<and>
         errorList (foldl (process_item e batch) p rs) = errorList p"
  using assms
proof (induction rs arbitrary: p)
  case Nil
  then show ?case by simp
next
  case (Cons r rs)
  then show ?case
    using process_item_conflict_counters[of r e batch p] by simp
qed

lemma run_batch_conflicts:
  assumes "\<forall>req. \<exists>resp. remote e req = Inr resp \<and> (\<forall>r \<in> set (processed_items resp). status r = Conflict)"
  shows "totalSynced (run_batch e p batch) = totalSynced p \<and>
         totalFailed (run_batch e p batch) = totalFailed p \<and>
         errorList (run_batch e p batch) = errorList p"
proof -
  let ?req = "\<lparr>items = batch, client_timestamp = clock e (ticks (db p))\<rparr>"
  from assms obtain resp where resp: "remote e ?req = Inr resp"
    "\<forall>r \<in> set (processed_items resp). status r = Conflict" by blast
  show ?thesis
    using conflicts_counters[OF resp(2), of e batch "p\<lparr>db := (db p)\<lparr>ticks := ticks (db p) + 1\<rparr>\<rparr>"]
    by (simp add: run_batch_def processBatch_def new_Date_def resp(1))
qed

lemma all_batches_conflicts:
  assumes "\<forall>req. \<exists>resp. remote e req = Inr resp \<and> (\<forall>r \<in> set (processed_items resp). status r = Conflict)"
  shows "totalSynced (foldl (run_batch e) p batches) = totalSynced p \<and>
         totalFailed (foldl (run_batch e) p batches) = totalFailed p \<and>
         errorList (foldl (run_batch e) p batches) = errorList p"
proof (induction batches arbitrary: p)
  case Nil
  then show ?case by simp
next
  case (Cons b bs)
  then show ?case using run_batch_conflicts[OF assms, of p b] by simp
qed

lemma snapshot_empty: "snapshot w = [] \<longleftrightarrow> sync_queue w = []"
  by (simp add: snapshot_def flip: length_0_conv)







text \<open>
  C10. An outcome with status \<^verbatim>\<open>'conflict'\<close> changes neither the synced count nor the
  failed count and adds no error entry. So when the server answers every batch with
  conflicts that carry resolved data, \<open>sync\<close> returns \<open>success = True\<close> with both counts
  0 and no errors, although the snapshot was not empty: the two counts need not add
  up to the number of entries of the snapshot.
\<close>

theorem conflicts_are_not_counted:
  "(status result = Conflict \<longrightarrow>
      totalSynced (process_item e batch p result) = totalSynced p \<and>
      totalFailed (process_item e batch p result) = totalFailed p \<and>
      errorList (process_item e batch p result) = errorList p) \<and>
   (checkConnectivity e \<and> sync_queue w \<noteq> [] \<and> 1 \<le> b \<and>
    (\<forall>req. \<exists>resp. remote e req = Inr resp \<and>
       (\<forall>r \<in> set (processed_items resp). status r = Conflict \<and> resolved_data r \<noteq> None)) \<longrightarrow>
      (\<exists>r w'. sync e (Num b) w = Some (r, w') \<and>
         success r = True \<and> synced_items r = 0 \<and> failed_items r = 0 \<and> errors r = [] \<and>
         synced_items r + failed_items r < length (snapshot w)))"
proof (rule conjI; rule impI)
  assume "status result = Conflict"
  then show "totalSynced (process_item e batch p result) = totalSynced p \<and>
      totalFailed (process_item e batch p result) = totalFailed p \<and>
      errorList (process_item e batch p result) = errorList p"
    by (rule process_item_conflict_counters)
next
  assume a: "checkConnectivity e \<and> sync_queue w \<noteq> [] \<and> 1 \<le> b \<and>
    (\<forall>req. \<exists>resp. remote e req = Inr resp \<and>
       (\<forall>r \<in> set (processed_items resp). status r = Conflict \<and> resolved_data r \<noteq> None))"
  then have ne: "snapshot w \<noteq> []" by (simp add: snapshot_empty)
  from a have "0 < b" by simp
  then obtain batches where bl: "batch_loop (Num b) (snapshot w) (Num 0) [] = Some batches"
    by (simp add: batch_loop_positive)
  from a have rem: "\<forall>req. \<exists>resp. remote e req = Inr resp \<and>
       (\<forall>r \<in> set (processed_items resp). status r = Conflict)" by blast
  let ?p0 = "\<lparr>db = w, totalSynced = 0, totalFailed = 0, errorList = []\<rparr>"
  have cnt: "totalSynced (foldl (run_batch e) ?p0 batches) = 0 \<and>
        totalFailed (foldl (run_batch e) ?p0 batches) = 0 \<and>
        errorList (foldl (run_batch e) ?p0 batches) = []"
    using all_batches_conflicts[OF rem, of ?p0 batches] by simp
  have "sync e (Num b) w =
          Some (\<lparr>success = True, synced_items = 0, failed_items = 0, errors = []\<rparr>,
                db (foldl (run_batch e) ?p0 batches))"
    using a ne bl cnt by (simp add: sync_def Let_def)
  with ne show "\<exists>r w'. sync e (Num b) w = Some (r, w') \<and>
         success r = True \<and> synced_items r = 0 \<and> failed_items r = 0 \<and> errors r = [] \<and>
         synced_items r + failed_items r < length (snapshot w)"
    by simp
qed

theorem conflicts_are_not_counted_witness:
  "checkConnectivity (ex_env True remote_conflicts) \<and> sync_queue ex_world \<noteq> [] \<and> (1::int) \<le> 10 \<and>
   status \<lparr>client_id = ''t1'', status = Conflict, resolved_data = Some ex_server_task, r_error = None\<rparr> = Conflict \<and>
   totalSynced (process_item (ex_env True remote_conflicts) [ex_item] ex_progress
      \<lparr>client_id = ''t1'', status = Conflict, resolved_data = Some ex_server_task, r_error = None\<rparr>) = 0 \<and>
   (\<exists>r w'. sync (ex_env True remote_conflicts) (Num 10) ex_world = Some (r, w') \<and>
         success r = True \<and> synced_items r = 0 \<and> failed_items r = 0 \<and> errors r = [] \<and>
         synced_items r + failed_items r < length (snapshot ex_world))"
proof -
  have h: "checkConnectivity (ex_env True remote_conflicts) \<and> sync_queue ex_world \<noteq> [] \<and> (1::int) \<le> 10 \<and>
    (\<forall>req. \<exists>resp. remote (ex_env True remote_conflicts) req = Inr resp \<and>
       (\<forall>r \<in> set (processed_items resp). status r = Conflict \<and> resolved_data r \<noteq> None))"
    by (auto simp add: checkConnectivity_def ex_env_def ex_world_def remote_conflicts_def)
  have t: "totalSynced ex_progress = 0" by (simp add: ex_progress_def)
  note c = conflicts_are_not_counted[of "\<lparr>client_id = ''t1'', status = Conflict, resolved_data = Some ex_server_task, r_error = None\<rparr>"
        "ex_env True remote_conflicts" "[ex_item]" ex_progress ex_world 10]
  from c have c1: "totalSynced (process_item (ex_env True remote_conflicts) [ex_item] ex_progress
      \<lparr>client_id = ''t1'', status = Conflict, resolved_data = Some ex_server_task, r_error = None\<rparr>) = 0"
    using t by simp
  from c h have c2: "\<exists>r w'. sync (ex_env True remote_conflicts) (Num 10) ex_world = Some (r, w') \<and>
         success r = True \<and> synced_items r = 0 \<and> failed_items r = 0 \<and> errors r = [] \<and>
         synced_items r + failed_items r < length (snapshot ex_world)"
    by blast
  from h c1 c2 show ?thesis by simp
qed

section \<open>Conflict outcomes\<close>

lemma find_holds: "find P xs = Some x \<Longrightarrow> P x"
  by (induction xs) (auto split: if_splits)

lemma getTask_found:
  "find (\<lambda>t. t_id t = i) (tasks w) = Some row \<Longrightarrow> \<not> is_deleted row \<Longrightarrow>
   getTask i w = Some (mapRowToTask row)"
  by (simp add: getTask_def)

lemma getTask_hidden:
  "find (\<lambda>t. t_id t = i) (tasks w) = Some row \<Longrightarrow> is_deleted row \<Longrightarrow> getTask i w = None"
  by (simp add: getTask_def)

lemma spread_as_partial: "spread existing (as_partial x) = x"
  by (simp add: spread_def as_partial_def)

lemma updateTask_found:
  assumes "getTask i w = Some existing"
  shows "tasks (snd (updateTask e i u w)) =
     map (\<lambda>t. if t_id t = i
               then t\<lparr>title := title (spread existing u), description := description (spread existing u),
                      completed := completed (spread existing u), updated_at := clock e (ticks w),
                      is_deleted := is_deleted (spread existing u), sync_status := StPending\<rparr>
               else t) (tasks w)"
    and "sync_queue (snd (updateTask e i u w)) =
     sync_queue w @ [\<lparr>q_id = uuid e (uuids w), task_id = t_id (spread existing u), operation = Update,
                       data = json_payload u, q_created_at = clock e (ticks w + 1),
                       retry_count = 0, error_message = None\<rparr>]"
    and "ticks (snd (updateTask e i u w)) = ticks w + 2"
  using assms
  by (simp_all add: updateTask_def new_Date_def addToSyncQueue_def uuidv4_def exec_simps Let_def)

lemma settled_after_update:
  "map (\<lambda>t. if t_id t = i
             then t\<lparr>sync_status := st, server_id := (case sid of None \<Rightarrow> server_id t | Some s \<Rightarrow> Some s),
                    last_synced_at := l\<rparr>
             else t)
     (map (\<lambda>t. if t_id t = i
                then t\<lparr>title := ti, description := de, completed := co, updated_at := up,
                       is_deleted := del, sync_status := st0\<rparr>
                else t) (ts :: task list)) =
   map (\<lambda>t. if t_id t = i
             then t\<lparr>title := ti, description := de, completed := co, updated_at := up,
                    is_deleted := del, sync_status := st,
                    server_id := (case sid of None \<Rightarrow> server_id t | Some s \<Rightarrow> Some s),
                    last_synced_at := l\<rparr>
             else t) ts"
  by (induction ts) (simp_all split: option.splits)

lemma process_item_conflict_db:
  assumes "status result = Conflict" and "resolved_data result = Some serverTask"
  shows "db (process_item e batch p result) =
           updateSyncStatus e (client_id result) StSynced (Some serverTask)
             (case getTask (client_id result) (db p) of
                None \<Rightarrow> db p
              | Some localTask \<Rightarrow>
                  snd (updateTask e (t_id localTask)
                         (as_partial (resolveConflict localTask serverTask)) (db p)))"
  using assms by (simp add: process_item_def Let_def split: option.splits)

lemma process_item_success_db:
  "status result = Success \<Longrightarrow>
   db (process_item e batch p result) =
     updateSyncStatus e (client_id result) StSynced (resolved_data result) (db p)"
  by (simp add: process_item_def)

lemma process_item_conflict_no_data:
  "status result = Conflict \<Longrightarrow> resolved_data result = None \<Longrightarrow>
   process_item e batch p result = p"
  by (simp add: process_item_def)

text \<open>
  C2, amended. A conflict outcome without resolved data changes nothing. For a
  conflict outcome with resolved data whose local record is not soft-deleted, the
  cycle calls \<open>resolveConflict\<close> with the current local record and the resolved data and
  writes the record it returns with \<open>updateTask\<close>: title, description, completion flag
  and soft-delete flag are the winner's, the last-modification time is the time of the
  write, and an update entry for the winner is queued. It then makes the call of
  \<open>updateSyncStatus\<close> that a \<^verbatim>\<open>'success'\<close> outcome with the same identifier and data makes
  on that database: every row of the record is in state \<open>StSynced\<close> and the queue has
  no entry for the record. The task table and the queue after the outcome are given
  in full against those before it.
\<close>

theorem conflict_settlement:
  "(status result = Conflict \<and> resolved_data result = None \<longrightarrow>
      process_item e batch p result = p) \<and>
   (status result = Conflict \<and> resolved_data result = Some serverTask \<and>
    find (\<lambda>t. t_id t = client_id result) (tasks (db p)) = Some row \<and> \<not> is_deleted row \<longrightarrow>
      (let cid = client_id result;
           localTask = mapRowToTask row;
           winner = resolveConflict localTask serverTask;
           persisted = snd (updateTask e (t_id localTask) (as_partial winner) (db p));
           p' = process_item e batch p result
       in getTask cid (db p) = Some localTask \<and>
          db p' = db (process_item e batch (p\<lparr>db := persisted\<rparr>) (result\<lparr>status := Success\<rparr>)) \<and>
          tasks persisted =
            map (\<lambda>t. if t_id t = cid
                      then t\<lparr>title := title winner, description := description winner,
                             completed := completed winner, updated_at := clock e (ticks (db p)),
                             is_deleted := is_deleted winner, sync_status := StPending\<rparr>
                      else t) (tasks (db p)) \<and>
          sync_queue persisted =
            sync_queue (db p) @
              [\<lparr>q_id = uuid e (uuids (db p)), task_id = t_id winner, operation = Update,
                 data = json_payload (as_partial winner),
                 q_created_at = clock e (ticks (db p) + 1), retry_count = 0,
                 error_message = None\<rparr>] \<and>
          tasks (db p') =
            map (\<lambda>t. if t_id t = cid
                      then t\<lparr>title := title winner, description := description winner,
                             completed := completed winner, updated_at := clock e (ticks (db p)),
                             is_deleted := is_deleted winner, sync_status := StSynced,
                             server_id := (case or_null (server_id serverTask) of
                                             None \<Rightarrow> server_id t | Some s \<Rightarrow> Some s),
                             last_synced_at := Some (clock e (ticks (db p) + 2))\<rparr>
                      else t) (tasks (db p)) \<and>
          sync_queue (db p') = filter (\<lambda>q. task_id q \<noteq> cid) (sync_queue persisted) \<and>
          (\<forall>t \<in> set (tasks (db p')). t_id t = cid \<longrightarrow> sync_status t = StSynced) \<and>
          (\<forall>q \<in> set (sync_queue (db p')). task_id q \<noteq> cid)))"
proof (rule conjI; rule impI)
  assume "status result = Conflict \<and> resolved_data result = None"
  then show "process_item e batch p result = p"
    by (simp add: process_item_conflict_no_data)
next
  assume a: "status result = Conflict \<and> resolved_data result = Some serverTask \<and>
    find (\<lambda>t. t_id t = client_id result) (tasks (db p)) = Some row \<and> \<not> is_deleted row"
  define cid where "cid = client_id result"
  define localTask where "localTask = mapRowToTask row"
  define winner where "winner = resolveConflict localTask serverTask"
  define persisted where "persisted = snd (updateTask e (t_id localTask) (as_partial winner) (db p))"
  define p' where "p' = process_item e batch p result"
  from a have "t_id row = cid" unfolding cid_def by (metis (mono_tags, lifting) find_holds)
  then have lid: "t_id localTask = cid" by (simp add: localTask_def mapRowToTask_def)
  have g: "getTask cid (db p) = Some localTask"
    unfolding cid_def localTask_def using a by (simp add: getTask_found)
  have dbp: "db p' = updateSyncStatus e cid StSynced (Some serverTask) persisted"
    using a g
    by (simp add: p'_def process_item_conflict_db persisted_def winner_def cid_def[symmetric] lid)
  have same: "db p' = db (process_item e batch (p\<lparr>db := persisted\<rparr>) (result\<lparr>status := Success\<rparr>))"
    using a by (simp add: dbp process_item_success_db cid_def)
  have g': "getTask (t_id localTask) (db p) = Some localTask" using g lid by simp
  have tp: "tasks persisted =
            map (\<lambda>t. if t_id t = cid
                      then t\<lparr>title := title winner, description := description winner,
                             completed := completed winner, updated_at := clock e (ticks (db p)),
                             is_deleted := is_deleted winner, sync_status := StPending\<rparr>
                      else t) (tasks (db p))"
    unfolding persisted_def using updateTask_found(1)[OF g', of e "as_partial winner"]
    by (simp add: spread_as_partial lid)
  have qp: "sync_queue persisted =
            sync_queue (db p) @
              [\<lparr>q_id = uuid e (uuids (db p)), task_id = t_id winner, operation = Update,
                 data = json_payload (as_partial winner),
                 q_created_at = clock e (ticks (db p) + 1), retry_count = 0,
                 error_message = None\<rparr>]"
    unfolding persisted_def using updateTask_found(2)[OF g', of e "as_partial winner"]
    by (simp add: spread_as_partial)
  have kp: "ticks persisted = ticks (db p) + 2"
    unfolding persisted_def by (rule updateTask_found(3)[OF g'])
  have tf: "tasks (db p') =
            map (\<lambda>t. if t_id t = cid
                      then t\<lparr>title := title winner, description := description winner,
                             completed := completed winner, updated_at := clock e (ticks (db p)),
                             is_deleted := is_deleted winner, sync_status := StSynced,
                             server_id := (case or_null (server_id serverTask) of
                                             None \<Rightarrow> server_id t | Some s \<Rightarrow> Some s),
                             last_synced_at := Some (clock e (ticks (db p) + 2))\<rparr>
                      else t) (tasks (db p))"
    unfolding dbp updateSyncStatus_tasks tp kp option.case
    by (rule settled_after_update)
  have qf: "sync_queue (db p') = filter (\<lambda>q. task_id q \<noteq> cid) (sync_queue persisted)"
    unfolding dbp by (rule updateSyncStatus_queue)
  have synced: "\<forall>t \<in> set (tasks (db p')). t_id t = cid \<longrightarrow> sync_status t = StSynced"
    unfolding dbp by (rule updateSyncStatus_synced)
  have cleaned: "\<forall>q \<in> set (sync_queue (db p')). task_id q \<noteq> cid"
    unfolding dbp by (rule updateSyncStatus_no_entries)
  from g same tp qp tf qf synced cleaned
  show "let cid = client_id result;
           localTask = mapRowToTask row;
           winner = resolveConflict localTask serverTask;
           persisted = snd (updateTask e (t_id localTask) (as_partial winner) (db p));
           p' = process_item e batch p result
       in getTask cid (db p) = Some localTask \<and>
          db p' = db (process_item e batch (p\<lparr>db := persisted\<rparr>) (result\<lparr>status := Success\<rparr>)) \<and>
          tasks persisted =
            map (\<lambda>t. if t_id t = cid
                      then t\<lparr>title := title winner, description := description winner,
                             completed := completed winner, updated_at := clock e (ticks (db p)),
                             is_deleted := is_deleted winner, sync_status := StPending\<rparr>
                      else t) (tasks (db p)) \<and>
          sync_queue persisted =
            sync_queue (db p) @
              [\<lparr>q_id = uuid e (uuids (db p)), task_id = t_id winner, operation = Update,
                 data = json_payload (as_partial winner),
                 q_created_at = clock e (ticks (db p) + 1), retry_count = 0,
                 error_message = None\<rparr>] \<and>
          tasks (db p') =
            map (\<lambda>t. if t_id t = cid
                      then t\<lparr>title := title winner, description := description winner,
                             completed := completed winner, updated_at := clock e (ticks (db p)),
                             is_deleted := is_deleted winner, sync_status := StSynced,
                             server_id := (case or_null (server_id serverTask) of
                                             None \<Rightarrow> server_id t | Some s \<Rightarrow> Some s),
                             last_synced_at := Some (clock e (ticks (db p) + 2))\<rparr>
                      else t) (tasks (db p)) \<and>
          sync_queue (db p') = filter (\<lambda>q. task_id q \<noteq> cid) (sync_queue persisted) \<and>
          (\<forall>t \<in> set (tasks (db p')). t_id t = cid \<longrightarrow> sync_status t = StSynced) \<and>
          (\<forall>q \<in> set (sync_queue (db p')). task_id q \<noteq> cid)"
    unfolding Let_def cid_def[symmetric] localTask_def[symmetric] winner_def[symmetric]
      persisted_def[symmetric] p'_def[symmetric]
    by blast
qed

theorem conflict_settlement_witness:
  "status ex_bare_conflict = Conflict \<and> resolved_data ex_bare_conflict = None \<and>
   process_item (ex_env True remote_conflicts) [ex_item] ex_progress ex_bare_conflict = ex_progress \<and>
   status ex_conflict = Conflict \<and> resolved_data ex_conflict = Some ex_server_task \<and>
   find (\<lambda>t. t_id t = client_id ex_conflict) (tasks (db ex_progress)) = Some ex_task \<and>
   \<not> is_deleted ex_task \<and>
   resolveConflict (mapRowToTask ex_task) ex_server_task = ex_server_task \<and>
   tasks (db (process_item (ex_env True remote_conflicts) [ex_item] ex_progress ex_conflict)) =
     [ex_task\<lparr>title := ''server title'', completed := True, updated_at := 1000,
               sync_status := StSynced, server_id := Some ''srv-t1'',
               last_synced_at := Some 1002\<rparr>] \<and>
   sync_queue (db (process_item (ex_env True remote_conflicts) [ex_item] ex_progress ex_conflict)) = []"
proof -
  have a: "status ex_bare_conflict = Conflict \<and> resolved_data ex_bare_conflict = None"
    by (simp add: ex_bare_conflict_def)
  have b: "status ex_conflict = Conflict \<and> resolved_data ex_conflict = Some ex_server_task \<and>
    find (\<lambda>t. t_id t = client_id ex_conflict) (tasks (db ex_progress)) = Some ex_task \<and>
    \<not> is_deleted ex_task"
    by (simp add: ex_conflict_def ex_progress_def ex_world_def ex_task_def)
  have w: "resolveConflict (mapRowToTask ex_task) ex_server_task = ex_server_task"
    by (simp add: resolveConflict_iso_text ex_server_task_def)
  note t = conflict_settlement[of ex_bare_conflict "ex_env True remote_conflicts" "[ex_item]"
      ex_progress ex_server_task ex_task]
  note u = conflict_settlement[of ex_conflict "ex_env True remote_conflicts" "[ex_item]"
      ex_progress ex_server_task ex_task]
  from t a have n: "process_item (ex_env True remote_conflicts) [ex_item] ex_progress ex_bare_conflict = ex_progress"
    by blast
  from u b have full: "let cid = client_id ex_conflict;
           localTask = mapRowToTask ex_task;
           winner = resolveConflict localTask ex_server_task;
           persisted = snd (updateTask (ex_env True remote_conflicts) (t_id localTask) (as_partial winner) (db ex_progress));
           p' = process_item (ex_env True remote_conflicts) [ex_item] ex_progress ex_conflict
       in tasks (db p') =
            map (\<lambda>t. if t_id t = cid
                      then t\<lparr>title := title winner, description := description winner,
                             completed := completed winner,
                             updated_at := clock (ex_env True remote_conflicts) (ticks (db ex_progress)),
                             is_deleted := is_deleted winner, sync_status := StSynced,
                             server_id := (case or_null (server_id ex_server_task) of
                                             None \<Rightarrow> server_id t | Some s \<Rightarrow> Some s),
                             last_synced_at := Some (clock (ex_env True remote_conflicts) (ticks (db ex_progress) + 2))\<rparr>
                      else t) (tasks (db ex_progress)) \<and>
          sync_queue (db p') = filter (\<lambda>q. task_id q \<noteq> cid) (sync_queue persisted) \<and>
          sync_queue persisted =
            sync_queue (db ex_progress) @
              [\<lparr>q_id = uuid (ex_env True remote_conflicts) (uuids (db ex_progress)), task_id = t_id winner, operation = Update,
                 data = json_payload (as_partial winner),
                 q_created_at = clock (ex_env True remote_conflicts) (ticks (db ex_progress) + 1), retry_count = 0,
                 error_message = None\<rparr>]"
    unfolding Let_def by blast
  have tk: "tasks (db (process_item (ex_env True remote_conflicts) [ex_item] ex_progress ex_conflict)) =
     [ex_task\<lparr>title := ''server title'', completed := True, updated_at := 1000,
               sync_status := StSynced, server_id := Some ''srv-t1'',
               last_synced_at := Some 1002\<rparr>]"
    using full unfolding Let_def w
    by (simp add: ex_conflict_def ex_progress_def ex_world_def ex_env_def)
       (simp add: ex_task_def ex_server_task_def)
  have qu: "sync_queue (db (process_item (ex_env True remote_conflicts) [ex_item] ex_progress ex_conflict)) = []"
    using full unfolding Let_def w
    by (simp add: ex_conflict_def ex_progress_def ex_world_def ex_item_def ex_server_task_def)
  from a b w n tk qu show ?thesis by simp
qed

text \<open>
  Three outcomes at which the cycle does not resolve and persist as C2 says before the
  amendment. A conflict outcome without resolved data passes every branch of the loop
  body: the record stays pending and its queue entry stays in the queue. With resolved
  data, the row written does not carry the winner's last-modification time but the
  time of the write. And when the local record is soft-deleted, \<open>getTask\<close> does not
  return it, the resolver is not called, and the title of the winner is not written.
\<close>

theorem conflict_settlement_counterexample:
  "status ex_bare_conflict = Conflict \<and>
   t_id ex_task = client_id ex_bare_conflict \<and> task_id ex_item = client_id ex_bare_conflict \<and>
   tasks (db ex_progress) = [ex_task] \<and> sync_queue (db ex_progress) = [ex_item] \<and>
   map sync_status (tasks (db (process_item (ex_env True remote_conflicts) [ex_item] ex_progress
                                 ex_bare_conflict))) = [StPending] \<and>
   sync_queue (db (process_item (ex_env True remote_conflicts) [ex_item] ex_progress
                     ex_bare_conflict)) = [ex_item] \<and>
   status ex_conflict = Conflict \<and> resolved_data ex_conflict = Some ex_server_task \<and>
   updated_at (resolveConflict (mapRowToTask ex_task) ex_server_task) = IsoString 300 \<and>
   map updated_at (tasks (db (process_item (ex_env True remote_conflicts) [ex_item] ex_progress
                                ex_conflict))) = [1000] \<and>
   title (resolveConflict (mapRowToTask (ex_task\<lparr>is_deleted := True\<rparr>)) ex_server_task) =
     ''server title'' \<and>
   map title (tasks (db (process_item (ex_env True remote_conflicts) [ex_item]
                           (ex_progress\<lparr>db := ex_world\<lparr>tasks := [ex_task\<lparr>is_deleted := True\<rparr>]\<rparr>\<rparr>)
                           ex_conflict))) = [''local title'']"
proof -
  have i: "status ex_bare_conflict = Conflict \<and>
   t_id ex_task = client_id ex_bare_conflict \<and> task_id ex_item = client_id ex_bare_conflict \<and>
   tasks (db ex_progress) = [ex_task] \<and> sync_queue (db ex_progress) = [ex_item] \<and>
   map sync_status (tasks (db (process_item (ex_env True remote_conflicts) [ex_item] ex_progress
                                 ex_bare_conflict))) = [StPending] \<and>
   sync_queue (db (process_item (ex_env True remote_conflicts) [ex_item] ex_progress
                     ex_bare_conflict)) = [ex_item]"
    by (simp add: process_item_def ex_bare_conflict_def ex_progress_def ex_world_def ex_task_def
        ex_item_def)
  have s: "status ex_conflict = Conflict" "resolved_data ex_conflict = Some ex_server_task"
    by (simp_all add: ex_conflict_def)
  have w: "resolveConflict l ex_server_task = ex_server_task" for l
    by (simp add: resolveConflict_iso_text ex_server_task_def)
  have g: "getTask (client_id ex_conflict) (db ex_progress) = Some ex_task"
    by (simp add: getTask_def mapRowToTask_def ex_conflict_def ex_progress_def ex_world_def
          ex_task_def)
  have g': "getTask (t_id ex_task) (db ex_progress) = Some ex_task"
    using g by (simp add: ex_conflict_def ex_task_def)
  have d: "db (process_item (ex_env True remote_conflicts) [ex_item] ex_progress ex_conflict) =
      updateSyncStatus (ex_env True remote_conflicts) (client_id ex_conflict) StSynced
        (Some ex_server_task)
        (snd (updateTask (ex_env True remote_conflicts) (t_id ex_task)
                (as_partial ex_server_task) (db ex_progress)))"
    using g by (simp add: process_item_conflict_db[OF s] w)
  have ii: "map updated_at (tasks (db (process_item (ex_env True remote_conflicts) [ex_item] ex_progress
                                ex_conflict))) = [1000]"
    unfolding d updateSyncStatus_tasks updateTask_found(1)[OF g']
    by (simp add: ex_progress_def ex_world_def ex_env_def)
  have h: "getTask (client_id ex_conflict)
             (db (ex_progress\<lparr>db := ex_world\<lparr>tasks := [ex_task\<lparr>is_deleted := True\<rparr>]\<rparr>\<rparr>)) = None"
    by (simp add: getTask_def ex_conflict_def ex_task_def)
  have d': "db (process_item (ex_env True remote_conflicts) [ex_item]
                           (ex_progress\<lparr>db := ex_world\<lparr>tasks := [ex_task\<lparr>is_deleted := True\<rparr>]\<rparr>\<rparr>)
                           ex_conflict) =
      updateSyncStatus (ex_env True remote_conflicts) (client_id ex_conflict) StSynced
        (Some ex_server_task) (ex_world\<lparr>tasks := [ex_task\<lparr>is_deleted := True\<rparr>]\<rparr>)"
    using h by (simp add: process_item_conflict_db[OF s])
  have iii: "map title (tasks (db (process_item (ex_env True remote_conflicts) [ex_item]
                           (ex_progress\<lparr>db := ex_world\<lparr>tasks := [ex_task\<lparr>is_deleted := True\<rparr>]\<rparr>\<rparr>)
                           ex_conflict))) = [''local title'']"
    unfolding d' updateSyncStatus_tasks
    by (simp add: ex_task_def)
  have "updated_at (resolveConflict (mapRowToTask ex_task) ex_server_task) = IsoString 300"
    "title (resolveConflict (mapRowToTask (ex_task\<lparr>is_deleted := True\<rparr>)) ex_server_task) =
     ''server title''"
    unfolding w by (simp_all add: ex_server_task_def)
  with i s ii iii show ?thesis by simp
qed

end
